theory Spec2Isabelle
  imports Main "HOL-Library.Sublist" "HOL-Library.Word"
begin

section \<open>Strings\<close>

text \<open>
  Python text is modelled as \<^typ>\<open>string\<close>, a list of 8-bit characters: ASCII text
  character by character, and any other code point by bytes above 127. The line break of
  a triple-quoted template is one line-feed character.
\<close>

definition nl :: string where
  "nl = [CHR 0x0A]"

text \<open>\<^verbatim>\<open>sep.join(xs)\<close>.\<close>

fun join :: "string \<Rightarrow> string list \<Rightarrow> string" where
  "join sep [] = []"
| "join sep [x] = x"
| "join sep (x # y # ys) = x @ sep @ join sep (y # ys)"

text \<open>The case of an ASCII letter; every other character is left as it is.\<close>

definition upper_char :: "char \<Rightarrow> char" where
  "upper_char c =
     (let n = (of_char c :: nat) in if 97 \<le> n \<and> n \<le> 122 then char_of (n - 32) else c)"

definition lower_char :: "char \<Rightarrow> char" where
  "lower_char c =
     (let n = (of_char c :: nat) in if 65 \<le> n \<and> n \<le> 90 then char_of (n + 32) else c)"

definition is_ascii :: "string \<Rightarrow> bool" where
  "is_ascii s = list_all (\<lambda>c. (of_char c :: nat) < 128) s"

text \<open>
  \<^verbatim>\<open>str.upper()\<close>. On ASCII text only the 26 letters change. On text with other code
  points Python follows the case tables of Unicode, where a character beyond ASCII can
  give ASCII letters (the long s gives \<open>S\<close>, the sharp s gives \<open>SS\<close>); these tables
  are not part of the repository, so the result on such text is the parameter
  \<open>unicode_upper\<close>.
\<close>

definition upper :: "(string \<Rightarrow> string) \<Rightarrow> string \<Rightarrow> string" where
  "upper unicode_upper s = (if is_ascii s then map upper_char s else unicode_upper s)"

text \<open>
  \<^verbatim>\<open>str.lower()\<close> as far as ASCII letters go. It is used only to look for the word
  \<open>closed\<close>, to which the lower case of a character beyond ASCII contributes no letter.
\<close>

definition lower :: "string \<Rightarrow> string" where
  "lower s = map lower_char s"

section \<open>Prompt builder (app/services/prompt\_builder.py)\<close>

text \<open>
  The dictionary lookup \<^verbatim>\<open>{...}.get(mode, "")\<close>: four known modes, and the empty
  instruction for every other mode.
\<close>

definition mode_instruction :: "string \<Rightarrow> string" where
  "mode_instruction mode =
     (if mode = ''text'' then ''Respond in plain text, 2-3 sentences max.''
      else if mode = ''voice'' then
        ''Respond conversationally as if speaking. Keep it brief and warm.''
      else if mode = ''video'' then
        ''The user may be showing you their pet. Describe what concerns you see if any.''
      else if mode = ''emergency'' then
        ''This is an EMERGENCY. Provide immediate first aid steps. Be direct.''
      else [])"

definition build_consultation_prompt ::
  "string \<Rightarrow> string \<Rightarrow> string \<Rightarrow> string \<Rightarrow> string \<Rightarrow> string \<Rightarrow> string \<Rightarrow> string" where
  "build_consultation_prompt dog_name breed age weight health_context user_query mode =
     ''You are a caring veterinary AI assistant for PetPal.'' @ nl @
     nl @
     ''DOG PROFILE:'' @ nl @
     ''- Name: '' @ dog_name @ nl @
     ''- Breed: '' @ breed @ nl @
     ''- Age: '' @ age @ nl @
     ''- Weight: '' @ weight @ nl @
     nl @
     health_context @ nl @
     nl @
     ''USER QUESTION: '' @ user_query @ nl @
     nl @
     ''INSTRUCTIONS:'' @ nl @
     mode_instruction mode @ nl @
     ''- Be warm and friendly'' @ nl @
     ''- Never use markdown formatting'' @ nl @
     ''- If serious, recommend seeing a vet'' @ nl @
     ''- Reference past health issues if relevant'' @ nl"

text \<open>The list comprehension \<^verbatim>\<open>[f"- {m}" for m in xs]\<close>.\<close>

definition bullet_lines :: "string list \<Rightarrow> string list" where
  "bullet_lines xs = map (\<lambda>m. ''- '' @ m) xs"

definition build_prescription_prompt ::
  "string \<Rightarrow> string list \<Rightarrow> string \<Rightarrow> string \<Rightarrow> string" where
  "build_prescription_prompt dog_name current_medications new_medication dosage =
     (let meds_list =
            (if current_medications \<noteq> [] then join nl (bullet_lines current_medications)
             else ''None'')
      in ''You are checking medication interactions for '' @ dog_name @ ''.'' @ nl @
         nl @
         ''CURRENT MEDICATIONS:'' @ nl @
         meds_list @ nl @
         nl @
         ''NEW PRESCRIPTION:'' @ nl @
         ''- Medication: '' @ new_medication @ nl @
         ''- Dosage: '' @ dosage @ nl @
         nl @
         ''TASK:'' @ nl @
         ''1. Check for drug interactions between current and new medications'' @ nl @
         ''2. Note any contraindications for dogs'' @ nl @
         ''3. Recommend if safe to prescribe'' @ nl @
         nl @
         ''Respond with:'' @ nl @
         ''- SAFE or CAUTION or WARNING'' @ nl @
         ''- Brief explanation'' @ nl @
         ''- Any monitoring recommendations'' @ nl)"


section \<open>Values, exceptions and observable effects\<close>

text \<open>
  A JSON document as Python holds it after \<^verbatim>\<open>json.loads\<close>; the same type serves for
  the dictionaries the handlers send. Numbers are integers here: floating point is
  outside the model. A dictionary is an association list in insertion order, read with
  \<^const>\<open>map_of\<close>.
\<close>

datatype pyval =
    PNone
  | PBool bool
  | PInt int
  | PStr string
  | PList "pyval list"
  | PDict "(string \<times> pyval) list"

text \<open>
  The exceptions the handlers distinguish, all subclasses of \<^verbatim>\<open>Exception\<close>.
  \<open>Failure msg\<close> is an exception of any other class raised by a collaborator
  (the websocket, the generation API, the memory API), with \<^verbatim>\<open>str(e) = msg\<close>.
\<close>

datatype exc =
    WebSocketDisconnect
  | KeyError string
  | TypeError
  | AttributeError
  | ValueError
  | BinasciiError
  | Failure string

type_synonym byte = "8 word"

text \<open>
  What a handler does to the outside world, in the order it does it. A call is recorded
  when it is issued, whether or not it then raises. \<open>PrintExc p e\<close> is
  \<^verbatim>\<open>print(f"{p}{e}")\<close>, and \<open>WsSendError p e\<close> is
  \<^verbatim>\<open>send({"type": "error", "message": p + str(e)})\<close>: the text of \<^verbatim>\<open>str(e)\<close> is
  left to the exception.
\<close>

datatype effect =
    WsSendJson pyval
  | WsSendError string exc
  | WsSendBytes "byte list"
  | WsClose
  | Print string
  | PrintExc string exc
  | SendRealtimeInput string "byte list" string
  | MemSearch string string int
  | MemAdd "(string \<times> string) list" string "(string \<times> pyval) list"
  | GenerateContent string string

text \<open>A computation that may raise, with the effects it had until then.\<close>

type_synonym 'a comp = "(exc + 'a) \<times> effect list"

definition returns :: "'a \<Rightarrow> 'a comp" where
  "returns v = (Inr v, [])"

definition raises :: "exc \<Rightarrow> 'a comp" where
  "raises e = (Inl e, [])"

definition emit :: "effect list \<Rightarrow> unit comp" where
  "emit es = (Inr (), es)"

text \<open>Sequencing: the second part runs only if the first did not raise.\<close>

definition and_then :: "'a comp \<Rightarrow> ('a \<Rightarrow> 'b comp) \<Rightarrow> 'b comp" where
  "and_then m f =
     (case m of
        (Inl e, es) \<Rightarrow> (Inl e, es)
      | (Inr v, es) \<Rightarrow> (case f v of (r, es') \<Rightarrow> (r, es @ es')))"

text \<open>\<^verbatim>\<open>try: m  except Exception as e: h(e)\<close>.\<close>

definition try_except :: "'a comp \<Rightarrow> (exc \<Rightarrow> 'a comp) \<Rightarrow> 'a comp" where
  "try_except m h =
     (case m of
        (Inl e, es) \<Rightarrow> (case h e of (r, es') \<Rightarrow> (r, es @ es'))
      | (Inr v, es) \<Rightarrow> (Inr v, es))"

text \<open>An external call: the effect is recorded, then the call returns or raises.\<close>

definition call :: "effect \<Rightarrow> exc + 'a \<Rightarrow> 'a comp" where
  "call eff outcome = (outcome, [eff])"

definition outcome_of :: "exc option \<Rightarrow> exc + unit" where
  "outcome_of r = (case r of None \<Rightarrow> Inr () | Some e \<Rightarrow> Inl e)"

section \<open>Memory gateway (app/services/mem0\_health\_service.py)\<close>

text \<open>
  The external \<^verbatim>\<open>MemoryClient\<close>: a search returns a list of memories or raises, an
  add returns or raises. A memory is a dictionary with text fields, as the cloud API
  documents it. The arguments are \<^verbatim>\<open>search(query, user_id, limit)\<close> and
  \<^verbatim>\<open>add(messages, user_id, metadata)\<close>, a message being the pair of its role and its
  content.
\<close>

type_synonym memory = "(string \<times> string) list"

record mem_client =
  search :: "string \<Rightarrow> string \<Rightarrow> int \<Rightarrow> exc + memory list"
  add :: "(string \<times> string) list \<Rightarrow> string \<Rightarrow> (string \<times> pyval) list \<Rightarrow> exc option"

text \<open>
  The service holds \<^verbatim>\<open>self.client\<close>, which is \<^verbatim>\<open>None\<close> when the key is not set or
  the constructor of the client raised.
\<close>

record Mem0HealthService =
  client :: "mem_client option"

text \<open>\<^verbatim>\<open>d.get(k, default)\<close> on a dictionary of text fields.\<close>

definition get :: "(string \<times> string) list \<Rightarrow> string \<Rightarrow> string \<Rightarrow> string" where
  "get d k dflt = (case map_of d k of None \<Rightarrow> dflt | Some v \<Rightarrow> v)"

text \<open>\<^verbatim>\<open>{**base, **extra}\<close>: a later key replaces the value of an earlier one in place.\<close>

fun dict_set :: "string \<Rightarrow> 'v \<Rightarrow> (string \<times> 'v) list \<Rightarrow> (string \<times> 'v) list" where
  "dict_set k v [] = [(k, v)]"
| "dict_set k v ((k', v') # kvs) =
     (if k' = k then (k, v) # kvs else (k', v') # dict_set k v kvs)"

definition dict_merge :: "(string \<times> 'v) list \<Rightarrow> (string \<times> 'v) list \<Rightarrow> (string \<times> 'v) list" where
  "dict_merge base extra = foldl (\<lambda>d (k, v). dict_set k v d) base extra"

definition add_consultation_memory ::
  "Mem0HealthService \<Rightarrow> string \<Rightarrow> string \<Rightarrow> string \<Rightarrow> string \<Rightarrow>
     (string \<times> pyval) list option \<Rightarrow> bool comp" where
  "add_consultation_memory self dog_id consultation_id message role metadata =
     (case client self of
        None \<Rightarrow> returns False
      | Some c \<Rightarrow>
          try_except
            (let mem_metadata =
                   dict_merge
                     [(''type'', PStr ''consultation''),
                      (''consultation_id'', PStr consultation_id),
                      (''role'', PStr role)]
                     (case metadata of None \<Rightarrow> [] | Some md \<Rightarrow> md)
             in and_then
                  (call (MemAdd [(role, message)] dog_id mem_metadata)
                     (outcome_of (add c [(role, message)] dog_id mem_metadata)))
                  (\<lambda>_. returns True))
            (\<lambda>e. and_then (emit [PrintExc ''Mem0 add error: '' e]) (\<lambda>_. returns False)))"

text \<open>
  The loop of \<^verbatim>\<open>get_health_context\<close>: one line per memory whose \<^verbatim>\<open>memory\<close> field is
  not empty.
\<close>

definition context_parts :: "memory list \<Rightarrow> string list" where
  "context_parts results =
     ''Previous Health Context:'' #
       map (\<lambda>memory_text. ''- '' @ memory_text)
         (filter (\<lambda>memory_text. memory_text \<noteq> [])
            (map (\<lambda>mem. get mem ''memory'' []) results))"

definition get_health_context ::
  "Mem0HealthService \<Rightarrow> string \<Rightarrow> string \<Rightarrow> int \<Rightarrow> string comp" where
  "get_health_context self dog_id query limit =
     (case client self of
        None \<Rightarrow> returns []
      | Some c \<Rightarrow>
          try_except
            (and_then
               (call (MemSearch query dog_id limit) (search c query dog_id limit))
               (\<lambda>results.
                  if results = [] then returns []
                  else returns (join nl (context_parts results))))
            (\<lambda>e. and_then (emit [PrintExc ''Mem0 search error: '' e]) (\<lambda>_. returns [])))"

text \<open>The argument of \<^verbatim>\<open>store_consultation_findings\<close>, each key possibly absent.\<close>

record findings =
  summary :: "string option"
  symptoms :: "string list option"
  conditions :: "string list option"
  recommendations :: "string list option"

definition listed :: "string list \<Rightarrow> string" where
  "listed xs = (if xs \<noteq> [] then join '', '' xs else ''None'')"

definition or_empty :: "'a list option \<Rightarrow> 'a list" where
  "or_empty x = (case x of None \<Rightarrow> [] | Some v \<Rightarrow> v)"

definition store_consultation_findings ::
  "Mem0HealthService \<Rightarrow> string \<Rightarrow> string \<Rightarrow> findings \<Rightarrow> bool comp" where
  "store_consultation_findings self dog_id consultation_id fs =
     (case client self of
        None \<Rightarrow> returns False
      | Some c \<Rightarrow>
          try_except
            (let summ = or_empty (summary fs);
                 symp = or_empty (symptoms fs);
                 cond = or_empty (conditions fs);
                 recs = or_empty (recommendations fs);
                 content =
                   ''Consultation Summary: '' @ summ @ nl @
                   ''Symptoms discussed: '' @ listed symp @ nl @
                   ''Conditions identified: '' @ listed cond @ nl @
                   ''Recommendations: '' @ listed recs;
                 md =
                   [(''type'', PStr ''consultation_summary''),
                    (''consultation_id'', PStr consultation_id),
                    (''symptoms'', PList (map PStr symp)),
                    (''conditions'', PList (map PStr cond))]
             in and_then
                  (call (MemAdd [(''assistant'', content)] dog_id md)
                     (outcome_of (add c [(''assistant'', content)] dog_id md)))
                  (\<lambda>_. returns True))
            (\<lambda>e. and_then (emit [PrintExc ''Mem0 findings error: '' e]) (\<lambda>_. returns False)))"

definition add_medication ::
  "Mem0HealthService \<Rightarrow> string \<Rightarrow> string \<Rightarrow> string \<Rightarrow> string \<Rightarrow> bool comp" where
  "add_medication self dog_id medication dosage frequency =
     (case client self of
        None \<Rightarrow> returns False
      | Some c \<Rightarrow>
          try_except
            (let content =
                   ''Medication prescribed: '' @ medication @ '', Dosage: '' @ dosage @
                   '', Frequency: '' @ frequency;
                 md =
                   [(''type'', PStr ''medication''), (''name'', PStr medication),
                    (''dosage'', PStr dosage), (''frequency'', PStr frequency)]
             in and_then
                  (call (MemAdd [(''system'', content)] dog_id md)
                     (outcome_of (add c [(''system'', content)] dog_id md)))
                  (\<lambda>_. returns True))
            (\<lambda>e. and_then (emit [PrintExc ''Mem0 medication error: '' e]) (\<lambda>_. returns False)))"

definition add_vaccination ::
  "Mem0HealthService \<Rightarrow> string \<Rightarrow> string \<Rightarrow> string \<Rightarrow> string \<Rightarrow> bool comp" where
  "add_vaccination self dog_id vaccine date vet =
     (case client self of
        None \<Rightarrow> returns False
      | Some c \<Rightarrow>
          try_except
            (let content =
                   ''Vaccination: '' @ vaccine @ '' given on '' @ date @
                   (if vet \<noteq> [] then '' by '' @ vet else []);
                 md =
                   [(''type'', PStr ''vaccination''), (''vaccine'', PStr vaccine),
                    (''date'', PStr date), (''vet'', PStr vet)]
             in and_then
                  (call (MemAdd [(''system'', content)] dog_id md)
                     (outcome_of (add c [(''system'', content)] dog_id md)))
                  (\<lambda>_. returns True))
            (\<lambda>e. and_then (emit [PrintExc ''Mem0 vaccination error: '' e]) (\<lambda>_. returns False)))"

definition get_medications :: "Mem0HealthService \<Rightarrow> string \<Rightarrow> memory list comp" where
  "get_medications self dog_id =
     (case client self of
        None \<Rightarrow> returns []
      | Some c \<Rightarrow>
          try_except
            (call (MemSearch ''current medications prescriptions'' dog_id 10)
               (search c ''current medications prescriptions'' dog_id 10))
            (\<lambda>e. and_then (emit [PrintExc ''Mem0 get medications error: '' e])
                    (\<lambda>_. returns [])))"

definition get_vaccinations :: "Mem0HealthService \<Rightarrow> string \<Rightarrow> memory list comp" where
  "get_vaccinations self dog_id =
     (case client self of
        None \<Rightarrow> returns []
      | Some c \<Rightarrow>
          try_except
            (call (MemSearch ''vaccinations vaccines shots'' dog_id 10)
               (search c ''vaccinations vaccines shots'' dog_id 10))
            (\<lambda>e. and_then (emit [PrintExc ''Mem0 get vaccinations error: '' e])
                    (\<lambda>_. returns [])))"

text \<open>A client whose every call raises, for the evaluation of the gateway on a dead backend.\<close>

definition failing_client :: mem_client where
  "failing_client =
     \<lparr>search = (\<lambda>q u l. Inl (Failure ''service unavailable'')),
      add = (\<lambda>ms u md. Some (Failure ''service unavailable''))\<rparr>"

text \<open>
  The backend call recorded in a trace failed: the client raised on a search or on an add
  that the operation issued.
\<close>

definition backend_call_failed :: "Mem0HealthService \<Rightarrow> effect list \<Rightarrow> bool" where
  "backend_call_failed self es =
     (case client self of
        None \<Rightarrow> False
      | Some c \<Rightarrow>
          list_ex
            (\<lambda>eff. case eff of
                     MemSearch q u l \<Rightarrow> isl (search c q u l)
                   | MemAdd ms u md \<Rightarrow> add c ms u md \<noteq> None
                   | _ \<Rightarrow> False)
            es)"

text \<open>The backend is unconfigured, or the call the operation made to it failed.\<close>

definition unavailable :: "Mem0HealthService \<Rightarrow> 'a comp \<Rightarrow> bool" where
  "unavailable self m = (client self = None \<or> backend_call_failed self (snd m))"

section \<open>Health endpoints (app/api/routes/health\_ws.py)\<close>

text \<open>
  A client message is the dictionary \<^verbatim>\<open>receive_json\<close> returned. The endpoints declare
  every field a \<^verbatim>\<open>str\<close> and format the fields into text, so a message is a dictionary
  of text fields; \<^const>\<open>get\<close> reads a field with its default.
\<close>

type_synonym message = "(string \<times> string) list"

text \<open>
  The generation client: \<^verbatim>\<open>client.models.generate_content(model, contents).text\<close>,
  which returns the text or raises.
\<close>

record gen_client =
  generate_content :: "string \<Rightarrow> string \<Rightarrow> exc + string"

definition GEMINI_MODEL :: string where
  "GEMINI_MODEL = ''gemini-flash-lite-latest''"

text \<open>
  One pass of a receive loop: what \<^verbatim>\<open>receive_json\<close> returned or raised, and whether the
  sends of this pass raise.
\<close>

record turn =
  received :: "exc + message"
  send_result :: "exc option"

definition ws_send :: "exc option \<Rightarrow> effect \<Rightarrow> unit comp" where
  "ws_send r eff = call eff (outcome_of r)"

definition no_message_error :: pyval where
  "no_message_error =
     PDict [(''type'', PStr ''error''), (''message'', PStr ''No message provided'')]"

definition apology :: string where
  "apology =
     ''I'' @ [CHR 0x27] @ ''m sorry, the AI service is not configured. Please check the API key.''"

definition response_message :: "string \<Rightarrow> pyval" where
  "response_message ai_text =
     PDict [(''type'', PStr ''response''),
            (''role'', PStr ''assistant''),
            (''text'', PStr ai_text),
            (''audio'', PNone),
            (''entities'', PDict [(''symptoms'', PList []), (''conditions'', PList [])])]"

text \<open>
  Lines 87 to 100: the context starts empty; with a memory service, the context is read
  and then the user's message is stored, and an exception of either step is printed. An
  exception of the second step leaves the context that was read.
\<close>

definition consultation_context ::
  "Mem0HealthService option \<Rightarrow> string \<Rightarrow> string \<Rightarrow> string \<Rightarrow> string comp" where
  "consultation_context mem0_service dog_id consultation_id message =
     (case mem0_service of
        None \<Rightarrow> returns []
      | Some svc \<Rightarrow>
          (case get_health_context svc dog_id message 5 of
             (Inl e, es) \<Rightarrow> (Inr [], es @ [PrintExc ''Mem0 error: '' e])
           | (Inr health_context, es) \<Rightarrow>
               (case add_consultation_memory svc dog_id consultation_id message ''user'' None of
                  (Inl e, es') \<Rightarrow> (Inr health_context, es @ es' @ [PrintExc ''Mem0 error: '' e])
                | (Inr _, es') \<Rightarrow> (Inr health_context, es @ es'))))"

text \<open>Lines 124 to 134: the answer is stored as an assistant message.\<close>

definition store_ai_response ::
  "Mem0HealthService option \<Rightarrow> string \<Rightarrow> string \<Rightarrow> string \<Rightarrow> unit comp" where
  "store_ai_response mem0_service dog_id consultation_id ai_text =
     (case mem0_service of
        None \<Rightarrow> returns ()
      | Some svc \<Rightarrow>
          try_except
            (and_then
               (add_consultation_memory svc dog_id consultation_id ai_text ''assistant'' None)
               (\<lambda>_. returns ()))
            (\<lambda>e. emit [PrintExc ''Mem0 store error: '' e]))"

text \<open>
  The body of the \<^verbatim>\<open>while True\<close> loop of \<^verbatim>\<open>consultation_websocket\<close> after the receive.
  It returns when the loop goes on to the next receive (also through \<^verbatim>\<open>continue\<close>), and
  raises what leaves the loop.
\<close>

definition consultation_turn ::
  "Mem0HealthService option \<Rightarrow> gen_client option \<Rightarrow> string \<Rightarrow> exc option \<Rightarrow> message \<Rightarrow>
     unit comp" where
  "consultation_turn mem0_service gclient session_id sr data =
     (let mode = get data ''mode'' ''text'';
          message = get data ''message'' [];
          dog_id = get data ''dog_id'' ''default'';
          consultation_id = get data ''consultation_id'' session_id;
          dog_name = get data ''dog_name'' ''Your dog'';
          breed = get data ''breed'' [];
          age = get data ''age'' ''adult'';
          weight = get data ''weight'' []
      in if message = [] then ws_send sr (WsSendJson no_message_error)
         else
           and_then (consultation_context mem0_service dog_id consultation_id message)
             (\<lambda>health_context.
                let prompt =
                      build_consultation_prompt dog_name breed age weight health_context
                        message mode
                in try_except
                     (and_then
                        (case gclient of
                           Some c \<Rightarrow>
                             call (GenerateContent GEMINI_MODEL prompt)
                               (generate_content c GEMINI_MODEL prompt)
                         | None \<Rightarrow> returns apology)
                        (\<lambda>ai_text.
                           and_then
                             (store_ai_response mem0_service dog_id consultation_id ai_text)
                             (\<lambda>_. ws_send sr (WsSendJson (response_message ai_text)))))
                     (\<lambda>e. ws_send sr (WsSendError ''AI error: '' e))))"

text \<open>
  How a run over finitely many passes ends: the handler is still waiting in a receive,
  or an exception left the loop.
\<close>

datatype loop_end = Waiting | Raised exc

fun consultation_loop ::
  "Mem0HealthService option \<Rightarrow> gen_client option \<Rightarrow> string \<Rightarrow> turn list \<Rightarrow>
     loop_end \<times> effect list" where
  "consultation_loop mem0_service gclient session_id [] = (Waiting, [])"
| "consultation_loop mem0_service gclient session_id (t # ts) =
     (case received t of
        Inl e \<Rightarrow> (Raised e, [])
      | Inr data \<Rightarrow>
          (case consultation_turn mem0_service gclient session_id (send_result t) data of
             (Inl e, es) \<Rightarrow> (Raised e, es)
           | (Inr _, es) \<Rightarrow>
               (case consultation_loop mem0_service gclient session_id ts of
                  (r, es') \<Rightarrow> (r, es @ es'))))"

text \<open>
  The registry \<^verbatim>\<open>active_sessions\<close> of this module, and the value the consultation
  endpoint stores in it.
\<close>

record session_info =
  kind :: string
  created :: nat

type_synonym 's registry = "string \<rightharpoonup> 's"

text \<open>
  How a handler stands after a finite run: still open, returned, or left by an exception
  that reaches the framework.
\<close>

datatype handler_end = Open | Returned | Propagated exc

definition connected_message :: "string \<Rightarrow> string \<Rightarrow> pyval" where
  "connected_message session_id text =
     PDict [(''type'', PStr ''connected''), (''session_id'', PStr session_id),
            (''message'', PStr text)]"

text \<open>
  \<^verbatim>\<open>consultation_websocket\<close>: \<open>session_id\<close> is the result of \<^verbatim>\<open>uuid.uuid4()\<close> and
  \<open>now\<close> that of \<^verbatim>\<open>datetime.now()\<close>; \<open>greeting\<close> says whether the first send
  raises. The entry is removed in the \<^verbatim>\<open>finally\<close> clause, that is, once the loop is
  left.
\<close>

definition consultation_websocket ::
  "session_info registry \<Rightarrow> Mem0HealthService option \<Rightarrow> gen_client option \<Rightarrow> string \<Rightarrow>
     nat \<Rightarrow> exc option \<Rightarrow> turn list \<Rightarrow> handler_end \<times> session_info registry \<times> effect list" where
  "consultation_websocket active_sessions mem0_service gclient session_id now greeting ts =
     (let registered = active_sessions(session_id \<mapsto> \<lparr>kind = ''consultation'', created = now\<rparr>);
          hello =
            WsSendJson
              (connected_message session_id
                 ''Welcome to PetPal Health! How can I help your furry friend today?'');
          (r, es) =
            (case greeting of
               Some e \<Rightarrow> (Raised e, [hello])
             | None \<Rightarrow>
                 (case consultation_loop mem0_service gclient session_id ts of
                    (r, es) \<Rightarrow> (r, hello # es)))
      in case r of
           Waiting \<Rightarrow> (Open, registered, es)
         | Raised WebSocketDisconnect \<Rightarrow>
             (Returned, registered(session_id := None),
              es @ [Print (''Consultation session '' @ session_id @ '' disconnected'')])
         | Raised e \<Rightarrow> (Propagated e, registered(session_id := None), es))"

text \<open>The comprehension \<^verbatim>\<open>[m.get("memory", "") for m in meds]\<close>.\<close>

definition memory_texts :: "memory list \<Rightarrow> string list" where
  "memory_texts meds = map (\<lambda>m. get m ''memory'' []) meds"

text \<open>
  The medications known for a dog, as the \<^verbatim>\<open>list\<close> and \<^verbatim>\<open>check_interaction\<close> actions
  read them: empty without a memory service.
\<close>

definition known_medications :: "Mem0HealthService option \<Rightarrow> string \<Rightarrow> string list comp" where
  "known_medications mem0_service dog_id =
     (case mem0_service of
        None \<Rightarrow> returns []
      | Some svc \<Rightarrow> and_then (get_medications svc dog_id) (\<lambda>meds. returns (memory_texts meds)))"

definition interaction_message :: "string \<Rightarrow> string \<Rightarrow> bool \<Rightarrow> pyval" where
  "interaction_message medication interaction_text safe =
     PDict [(''type'', PStr ''response''),
            (''action'', PStr ''interaction_check''),
            (''medication'', PStr medication),
            (''interactions'', PStr interaction_text),
            (''safe_to_prescribe'', PBool safe)]"

text \<open>
  The body of the loop of \<^verbatim>\<open>prescription_websocket\<close> after the receive. The test
  \<^verbatim>\<open>"SAFE" in interaction_text.upper()\<close> is a substring test.
\<close>

definition prescription_turn ::
  "(string \<Rightarrow> string) \<Rightarrow> Mem0HealthService option \<Rightarrow> gen_client option \<Rightarrow> exc option \<Rightarrow>
     message \<Rightarrow> unit comp" where
  "prescription_turn unicode_upper mem0_service gclient sr data =
     (let action = get data ''action'' ''list'';
          medication = get data ''medication'' [];
          dosage = get data ''dosage'' [];
          frequency = get data ''frequency'' [];
          dog_id = get data ''dog_id'' ''default'';
          dog_name = get data ''dog_name'' ''Your dog''
      in if action = ''add'' then
           and_then
             (case mem0_service of
                Some svc \<Rightarrow>
                  if medication \<noteq> [] then
                    and_then (add_medication svc dog_id medication dosage frequency)
                      (\<lambda>_. returns ())
                  else returns ()
              | None \<Rightarrow> returns ())
             (\<lambda>_. ws_send sr
                (WsSendJson
                   (PDict [(''type'', PStr ''response''),
                           (''action'', PStr ''added''),
                           (''medication'', PStr medication),
                           (''message'',
                            PStr (''Added '' @ medication @ '' to '' @ dog_name @ [CHR 0x27] @
                                  ''s prescriptions''))])))
         else if action = ''list'' then
           and_then (known_medications mem0_service dog_id)
             (\<lambda>medications.
                ws_send sr
                  (WsSendJson
                     (PDict [(''type'', PStr ''response''),
                             (''action'', PStr ''list''),
                             (''medications'', PList (map PStr medications))])))
         else if action = ''check_interaction'' then
           and_then (known_medications mem0_service dog_id)
             (\<lambda>current_meds.
                case gclient of
                  Some c \<Rightarrow>
                    if medication \<noteq> [] then
                      (let prompt =
                             build_prescription_prompt dog_name current_meds medication dosage
                       in and_then
                            (call (GenerateContent GEMINI_MODEL prompt)
                               (generate_content c GEMINI_MODEL prompt))
                            (\<lambda>interaction_text.
                               let safe = sublist ''SAFE'' (upper unicode_upper interaction_text)
                               in ws_send sr
                                    (WsSendJson
                                       (interaction_message medication interaction_text safe))))
                    else
                      ws_send sr
                        (WsSendJson
                           (PDict [(''type'', PStr ''error''),
                                   (''message'',
                                    PStr ''Cannot check interactions - AI not configured'')]))
                | None \<Rightarrow>
                    ws_send sr
                      (WsSendJson
                         (PDict [(''type'', PStr ''error''),
                                 (''message'',
                                  PStr ''Cannot check interactions - AI not configured'')])))
         else returns ())"

text \<open>
  A memory client that accepts everything and remembers nothing, and a generation client
  with one fixed answer, for the evaluation of the endpoints.
\<close>

definition accepting_client :: mem_client where
  "accepting_client = \<lparr>search = (\<lambda>q u l. Inr []), add = (\<lambda>ms u md. None)\<rparr>"

definition unsafe_answer :: gen_client where
  "unsafe_answer = \<lparr>generate_content = (\<lambda>m p. Inr ''unsafe with carprofen'')\<rparr>"

section \<open>Base64 (the standard library functions the relay calls)\<close>

text \<open>
  The alphabet of \<^verbatim>\<open>base64.b64encode\<close>: the character of a six-bit value, and the
  value of a character (\<^verbatim>\<open>table_a2b_base64\<close>, where every other character is invalid).
\<close>

definition b64_char :: "nat \<Rightarrow> char" where
  "b64_char v =
     (if v < 26 then char_of (65 + v)
      else if v < 52 then char_of (71 + v)
      else if v < 62 then char_of (v - 4)
      else if v = 62 then CHR ''+''
      else CHR ''/'')"

definition b64_value :: "char \<Rightarrow> nat option" where
  "b64_value c =
     (let n = (of_char c :: nat)
      in if 65 \<le> n \<and> n \<le> 90 then Some (n - 65)
         else if 97 \<le> n \<and> n \<le> 122 then Some (n - 71)
         else if 48 \<le> n \<and> n \<le> 57 then Some (n + 4)
         else if n = 43 then Some 62
         else if n = 47 then Some 63
         else None)"

text \<open>
  \<^verbatim>\<open>base64.b64encode(data).decode()\<close>: three bytes give four characters, and a
  last group of one or two bytes is padded with \<open>=\<close>. Shifts and masks are written as
  division and remainder.
\<close>

fun b64encode :: "byte list \<Rightarrow> string" where
  "b64encode [] = []"
| "b64encode [a] =
     [b64_char (unat a div 4), b64_char ((unat a mod 4) * 16), CHR ''='', CHR ''='']"
| "b64encode [a, b] =
     [b64_char (unat a div 4), b64_char ((unat a mod 4) * 16 + unat b div 16),
      b64_char ((unat b mod 16) * 4), CHR ''='']"
| "b64encode (a # b # c # rest) =
     [b64_char (unat a div 4), b64_char ((unat a mod 4) * 16 + unat b div 16),
      b64_char ((unat b mod 16) * 4 + unat c div 64), b64_char (unat c mod 64)]
     @ b64encode rest"

text \<open>
  The decoding loop of \<^verbatim>\<open>binascii.a2b_base64\<close> as \<^verbatim>\<open>base64.b64decode\<close> calls it
  (not strict): characters outside the alphabet are skipped; \<open>quad_pos\<close> counts the
  data characters of the current group and \<open>leftchar\<close> holds its pending bits; a pad
  that completes a group ends the decoding, and any other pad is skipped; at the end of
  the input an incomplete group is an error. A byte is written as an unsigned char, that
  is, modulo 256.
\<close>

fun a2b_base64 :: "nat \<Rightarrow> nat \<Rightarrow> nat \<Rightarrow> byte list \<Rightarrow> string \<Rightarrow> exc + byte list" where
  "a2b_base64 quad_pos leftchar pads out [] =
     (if quad_pos \<noteq> 0 then Inl BinasciiError else Inr out)"
| "a2b_base64 quad_pos leftchar pads out (c # cs) =
     (if c = CHR ''='' then
        (if quad_pos \<ge> 2 then
           (if quad_pos + (pads + 1) \<ge> 4 then Inr out
            else a2b_base64 quad_pos leftchar (pads + 1) out cs)
         else a2b_base64 quad_pos leftchar pads out cs)
      else
        (case b64_value c of
           None \<Rightarrow> a2b_base64 quad_pos leftchar pads out cs
         | Some this_ch \<Rightarrow>
             (if quad_pos = 0 then a2b_base64 1 this_ch 0 out cs
              else if quad_pos = 1 then
                a2b_base64 2 (this_ch mod 16) 0
                  (out @ [of_nat (leftchar * 4 + this_ch div 16)]) cs
              else if quad_pos = 2 then
                a2b_base64 3 (this_ch mod 4) 0
                  (out @ [of_nat (leftchar * 16 + this_ch div 4)]) cs
              else
                a2b_base64 0 0 0 (out @ [of_nat (leftchar * 64 + this_ch)]) cs)))"

text \<open>
  \<^verbatim>\<open>base64.b64decode(s)\<close> on a value taken from a JSON message: a string must be ASCII
  (\<^verbatim>\<open>ValueError\<close> otherwise), and a value that is not a string is a \<^verbatim>\<open>TypeError\<close>.
\<close>

definition b64decode :: "pyval \<Rightarrow> byte list comp" where
  "b64decode v =
     (case v of
        PStr s \<Rightarrow>
          if list_all (\<lambda>c. (of_char c :: nat) < 128) s then (a2b_base64 0 0 0 [] s, [])
          else raises ValueError
      | _ \<Rightarrow> raises TypeError)"

section \<open>Reading JSON values\<close>

text \<open>
  \<^verbatim>\<open>data.get(k, default)\<close> exists on dictionaries only; \<^verbatim>\<open>data[k]\<close> with a string key
  is a \<^verbatim>\<open>KeyError\<close> on a dictionary without the key and a \<^verbatim>\<open>TypeError\<close> on every
  other JSON value.
\<close>

definition py_get :: "pyval \<Rightarrow> string \<Rightarrow> pyval \<Rightarrow> pyval comp" where
  "py_get data k dflt =
     (case data of
        PDict kvs \<Rightarrow> returns (case map_of kvs k of None \<Rightarrow> dflt | Some v \<Rightarrow> v)
      | _ \<Rightarrow> raises AttributeError)"

definition py_item :: "pyval \<Rightarrow> string \<Rightarrow> pyval comp" where
  "py_item data k =
     (case data of
        PDict kvs \<Rightarrow> (case map_of kvs k of None \<Rightarrow> raises (KeyError k) | Some v \<Rightarrow> returns v)
      | _ \<Rightarrow> raises TypeError)"

section \<open>Live relay (app/api/routes/live\_ws.py)\<close>

text \<open>The variables of \<^verbatim>\<open>live_session\<close> that its two tasks share.\<close>

record live_state =
  cur_dog_name :: pyval
  cur_dog_id :: pyval
  is_running :: bool

text \<open>
  One pass of \<^verbatim>\<open>receive_from_flutter\<close>: what \<^verbatim>\<open>receive_json\<close> returned or raised,
  and whether \<^verbatim>\<open>live.send_realtime_input\<close> raises in this pass.
\<close>

record inbound =
  incoming :: "exc + pyval"
  forwarding :: "exc option"

datatype control = Continue | Break

text \<open>The \<^verbatim>\<open>try\<close> block of \<^verbatim>\<open>receive_from_flutter\<close> (lines 117 to 141).\<close>

definition receive_body :: "live_state \<Rightarrow> inbound \<Rightarrow> (control \<times> live_state) comp" where
  "receive_body s x =
     and_then (incoming x, [])
       (\<lambda>data.
          and_then (py_get data ''type'' PNone)
            (\<lambda>msg_type.
               if msg_type = PStr ''config'' then
                 and_then (py_get data ''dog_name'' (PStr ''your dog''))
                   (\<lambda>name.
                      and_then (py_get data ''dog_id'' (PStr ''default''))
                        (\<lambda>ident. returns (Continue, s\<lparr>cur_dog_name := name, cur_dog_id := ident\<rparr>)))
               else if msg_type = PStr ''audio'' then
                 and_then (py_item data ''data'')
                   (\<lambda>payload.
                      and_then (b64decode payload)
                        (\<lambda>audio_bytes.
                           and_then
                             (call (SendRealtimeInput ''audio'' audio_bytes ''audio/pcm'')
                                (outcome_of (forwarding x)))
                             (\<lambda>_. returns (Continue, s))))
               else if msg_type = PStr ''video'' then
                 and_then (py_item data ''data'')
                   (\<lambda>payload.
                      and_then (b64decode payload)
                        (\<lambda>video_bytes.
                           and_then
                             (call (SendRealtimeInput ''video'' video_bytes ''image/jpeg'')
                                (outcome_of (forwarding x)))
                             (\<lambda>_. returns (Continue, s))))
               else if msg_type = PStr ''stop'' then
                 returns (Break, s\<lparr>is_running := False\<rparr>)
               else returns (Continue, s)))"

text \<open>
  The pass with its two handlers: a disconnect clears \<open>is_running\<close> and leaves the loop;
  any other exception is printed, and the loop goes on.
\<close>

definition receive_step :: "live_state \<Rightarrow> inbound \<Rightarrow> control \<times> live_state \<times> effect list" where
  "receive_step s x =
     (case receive_body s x of
        (Inr (ctl, s'), es) \<Rightarrow> (ctl, s', es)
      | (Inl WebSocketDisconnect, es) \<Rightarrow> (Break, s\<lparr>is_running := False\<rparr>, es)
      | (Inl e, es) \<Rightarrow> (Continue, s, es @ [PrintExc ''Receive error: '' e]))"

text \<open>
  \<^verbatim>\<open>receive_from_flutter\<close> on the passes the client provides. The result says whether
  the task has ended, the state, the effects, and the passes it did not read.
\<close>

datatype task = Running | Finished


text \<open>
  What the upstream session yields. A part carries inline bytes, text, both or neither; a
  response carries a server content or none.
\<close>

record part =
  inline_data :: "byte list option"
  part_text :: "string option"

record server_content =
  model_turn :: "part list option"
  input_transcript :: "string option"

definition audio_reply :: "byte list \<Rightarrow> pyval" where
  "audio_reply payload = PDict [(''type'', PStr ''audio''), (''data'', PStr (b64encode payload))]"

definition transcript :: "string \<Rightarrow> string \<Rightarrow> pyval" where
  "transcript role t =
     PDict [(''type'', PStr ''transcript''), (''role'', PStr role), (''text'', PStr t)]"

definition present :: "string option \<Rightarrow> string list" where
  "present t = (case t of None \<Rightarrow> [] | Some v \<Rightarrow> if v \<noteq> [] then [v] else [])"

text \<open>The messages \<^verbatim>\<open>send_to_flutter\<close> sends for one response, in order (lines 160 to 188).\<close>

definition live_part_messages :: "part \<Rightarrow> pyval list" where
  "live_part_messages p =
     (case inline_data p of None \<Rightarrow> [] | Some payload \<Rightarrow> [audio_reply payload]) @
     map (transcript ''assistant'') (present (part_text p))"

definition live_response_messages :: "server_content option \<Rightarrow> pyval list" where
  "live_response_messages r =
     (case r of
        None \<Rightarrow> []
      | Some content \<Rightarrow>
          (case model_turn content of
             None \<Rightarrow> []
           | Some parts \<Rightarrow> concat (map live_part_messages parts)) @
          map (transcript ''user'') (present (input_transcript content)))"

text \<open>
  What reaches \<^verbatim>\<open>send_to_flutter\<close> while it waits for the upstream session: a response,
  the end of a turn, an exception with the text \<^verbatim>\<open>str(e)\<close>, or the cancellation of the
  task. \<open>delivering\<close> is the text of the exception that \<^verbatim>\<open>websocket.send_json\<close> raises
  in this pass, if it raises.
\<close>

datatype upstream =
    UpResponse "server_content option"
  | UpTurnEnd
  | UpRaises string
  | UpCancelled

record outbound =
  arriving :: upstream
  delivering :: "string option"

text \<open>The handler \<^verbatim>\<open>except Exception as e\<close> of \<^verbatim>\<open>send_to_flutter\<close>.\<close>

definition send_error :: "string \<Rightarrow> control \<times> effect list" where
  "send_error msg =
     (if sublist ''closed'' (lower msg) then Break else Continue,
      [Print (''Send error: '' @ msg)])"

text \<open>
  One pass of \<^verbatim>\<open>send_to_flutter\<close>, given the value of \<open>is_running\<close>. A response
  that arrives when \<open>is_running\<close> is false leaves the inner loop at once. \<open>Continue\<close>
  leads to the test of the \<^verbatim>\<open>while\<close> loop.
\<close>

definition send_step :: "bool \<Rightarrow> outbound \<Rightarrow> control \<times> effect list" where
  "send_step running x =
     (case arriving x of
        UpCancelled \<Rightarrow> (Break, [])
      | UpRaises msg \<Rightarrow> send_error msg
      | UpTurnEnd \<Rightarrow> (Continue, [])
      | UpResponse r \<Rightarrow>
          if \<not> running then (Continue, [])
          else
            (case live_response_messages r of
               [] \<Rightarrow> (Continue, [])
             | m # ms \<Rightarrow>
                 (case delivering x of
                    None \<Rightarrow> (Continue, map WsSendJson (m # ms))
                  | Some msg \<Rightarrow>
                      (case send_error msg of (ctl, es) \<Rightarrow> (ctl, WsSendJson m # es)))))"

text \<open>
  The two tasks of the task group. Each waits for its own events, and an event changes
  the task it is for; a task that has ended reads nothing. After a pass, a task is at the
  test of its \<^verbatim>\<open>while\<close> loop, so it ends on \<open>Break\<close> or when \<open>is_running\<close> is false.
  The task group cancels its tasks only when one of them raises, and neither raises.
\<close>

record live_tasks =
  shared :: live_state
  receiver :: task
  sender :: task

datatype live_event = FromClient inbound | FromUpstream outbound

definition after_pass :: "control \<Rightarrow> bool \<Rightarrow> task" where
  "after_pass ctl running = (if ctl = Break \<or> \<not> running then Finished else Running)"

definition live_step :: "live_tasks \<Rightarrow> live_event \<Rightarrow> live_tasks \<times> effect list" where
  "live_step t ev =
     (case ev of
        FromClient x \<Rightarrow>
          if receiver t = Running then
            (case receive_step (shared t) x of
               (ctl, s', es) \<Rightarrow>
                 (t\<lparr>shared := s', receiver := after_pass ctl (is_running s')\<rparr>, es))
          else (t, [])
      | FromUpstream x \<Rightarrow>
          if sender t = Running then
            (case send_step (is_running (shared t)) x of
               (ctl, es) \<Rightarrow> (t\<lparr>sender := after_pass ctl (is_running (shared t))\<rparr>, es))
          else (t, []))"

fun live_run :: "live_tasks \<Rightarrow> live_event list \<Rightarrow> live_tasks \<times> effect list" where
  "live_run t [] = (t, [])"
| "live_run t (ev # evs) =
     (case live_step t ev of
        (t', es) \<Rightarrow> (case live_run t' evs of (t'', es') \<Rightarrow> (t'', es @ es')))"

text \<open>The state in which \<^verbatim>\<open>live_session\<close> creates the two tasks (lines 80 to 82).\<close>

definition live_start :: live_tasks where
  "live_start =
     \<lparr>shared = \<lparr>cur_dog_name = PStr ''your dog'', cur_dog_id = PStr ''default'',
                 is_running = True\<rparr>,
      receiver = Running, sender = Running\<rparr>"

text \<open>
  \<^verbatim>\<open>live_session\<close>: without a client it reports the error and closes; otherwise it
  greets, connects upstream and runs the task group, which is left once both tasks have
  ended. This module keeps no session registry.
\<close>

definition live_session ::
  "bool \<Rightarrow> exc option \<Rightarrow> exc option \<Rightarrow> exc option \<Rightarrow> live_event list \<Rightarrow>
     handler_end \<times> effect list" where
  "live_session configured greeting connecting reporting evs =
     (let failed =
            (\<lambda>e es.
               if e = WebSocketDisconnect then
                 (Returned, es @ [Print ''Live session disconnected'', Print ''Live session ended''])
               else
                 (Returned,
                  es @ [PrintExc ''Live session error: '' e, WsSendError [] e,
                        Print ''Live session ended'']));
          hello =
            WsSendJson
              (PDict [(''type'', PStr ''connected''),
                      (''message'', PStr ''Live session ready. Start speaking!'')])
      in if \<not> configured then
           (case reporting of
              None \<Rightarrow>
                (Returned,
                 [WsSendJson
                    (PDict [(''type'', PStr ''error''),
                            (''message'', PStr ''Gemini API not configured'')]),
                  WsClose])
            | Some e \<Rightarrow>
                (Propagated e,
                 [WsSendJson
                    (PDict [(''type'', PStr ''error''),
                            (''message'', PStr ''Gemini API not configured'')])]))
         else
           (case greeting of
              Some e \<Rightarrow> failed e [hello]
            | None \<Rightarrow>
                (case connecting of
                   Some e \<Rightarrow> failed e [hello]
                 | None \<Rightarrow>
                     (case live_run live_start evs of
                        (t, es) \<Rightarrow>
                          if receiver t = Finished \<and> sender t = Finished then
                            (Returned, hello # es @ [Print ''Live session ended''])
                          else (Open, hello # es)))))"

section \<open>Voice and video relay (backend/main.py)\<close>

text \<open>
  The registry \<^verbatim>\<open>active_sessions\<close> of this module maps a session id, which the client
  chooses in the URL, to the upstream session; an upstream session is named by a number.
\<close>

datatype vtask = Active | Done | Failed exc | Cancelled

text \<open>
  What reaches the two tasks of \<^verbatim>\<open>voice_websocket\<close>: for \<^verbatim>\<open>_receive_from_client\<close>,
  the outcome of \<^verbatim>\<open>receive_bytes\<close> and of the forwarding; for \<^verbatim>\<open>_send_to_client\<close>, a
  response with the outcome of \<^verbatim>\<open>send_bytes\<close>, or an exception of the upstream session.
\<close>

datatype voice_event =
    ClientBytes "exc + byte list" "exc option"
  | UpstreamResponse "server_content option" "exc option"
  | UpstreamRaises exc

record voice_tasks =
  receive_task :: vtask
  send_task :: vtask

text \<open>The bytes \<^verbatim>\<open>_send_to_client\<close> sends for one response.\<close>

definition inline_payloads :: "server_content option \<Rightarrow> byte list list" where
  "inline_payloads r =
     (case r of
        None \<Rightarrow> []
      | Some content \<Rightarrow>
          (case model_turn content of
             None \<Rightarrow> []
           | Some parts \<Rightarrow> concat (map (\<lambda>p. case inline_data p of None \<Rightarrow> [] | Some d \<Rightarrow> [d]) parts)))"

text \<open>
  One pass of \<^verbatim>\<open>_receive_from_client\<close>: the bytes are forwarded as PCM audio; a
  disconnect ends the task, any other exception ends it as failed.
\<close>

definition voice_receive :: "exc + byte list \<Rightarrow> exc option \<Rightarrow> vtask \<times> effect list" where
  "voice_receive got fw =
     (case and_then (got, [])
             (\<lambda>payload. call (SendRealtimeInput ''audio'' payload ''audio/pcm'') (outcome_of fw)) of
        (Inr _, es) \<Rightarrow> (Active, es)
      | (Inl WebSocketDisconnect, es) \<Rightarrow> (Done, es)
      | (Inl e, es) \<Rightarrow> (Failed e, es))"

text \<open>One pass of \<^verbatim>\<open>_send_to_client\<close>: any exception is printed and ends the task.\<close>

definition voice_send :: "server_content option \<Rightarrow> exc option \<Rightarrow> vtask \<times> effect list" where
  "voice_send r so =
     (case inline_payloads r of
        [] \<Rightarrow> (Active, [])
      | d # ds \<Rightarrow>
          (case so of
             None \<Rightarrow> (Active, map WsSendBytes (d # ds))
           | Some e \<Rightarrow> (Done, [WsSendBytes d, PrintExc ''Send error: '' e])))"

text \<open>
  Lines 117 to 132: \<^verbatim>\<open>asyncio.wait\<close> returns when a task has ended; the handler then
  cancels the task that is still pending and removes the session id from the registry.
  While both tasks are active the handler waits, and after it has left, events change
  nothing.
\<close>

definition cancel_pending :: "vtask \<Rightarrow> vtask" where
  "cancel_pending v = (if v = Active then Cancelled else v)"

definition voice_step ::
  "string \<Rightarrow> voice_tasks \<times> nat registry \<Rightarrow> voice_event \<Rightarrow>
     (voice_tasks \<times> nat registry) \<times> effect list" where
  "voice_step session_id st ev =
     (case st of
        (t, active_sessions) \<Rightarrow>
          if receive_task t = Active \<and> send_task t = Active then
            (let (t', es) =
                   (case ev of
                      ClientBytes got fw \<Rightarrow>
                        (case voice_receive got fw of (v, es) \<Rightarrow> (t\<lparr>receive_task := v\<rparr>, es))
                    | UpstreamResponse r so \<Rightarrow>
                        (case voice_send r so of (v, es) \<Rightarrow> (t\<lparr>send_task := v\<rparr>, es))
                    | UpstreamRaises e \<Rightarrow>
                        (t\<lparr>send_task := Done\<rparr>, [PrintExc ''Send error: '' e]))
             in if receive_task t' = Active \<and> send_task t' = Active then
                  ((t', active_sessions), es)
                else
                  ((\<lparr>receive_task = cancel_pending (receive_task t'),
                     send_task = cancel_pending (send_task t')\<rparr>,
                    active_sessions(session_id := None)), es))
          else (st, []))"

fun voice_run ::
  "string \<Rightarrow> voice_tasks \<times> nat registry \<Rightarrow> voice_event list \<Rightarrow>
     (voice_tasks \<times> nat registry) \<times> effect list" where
  "voice_run session_id st [] = (st, [])"
| "voice_run session_id st (ev # evs) =
     (case voice_step session_id st ev of
        (st', es) \<Rightarrow> (case voice_run session_id st' evs of (st'', es') \<Rightarrow> (st'', es @ es')))"

definition ready_message :: pyval where
  "ready_message = PDict [(''type'', PStr ''ready'')]"

text \<open>
  The handlers of \<^verbatim>\<open>voice_websocket\<close> for an exception that leaves the \<^verbatim>\<open>try\<close> block:
  a disconnect is printed; any other exception is printed and reported to the client,
  and an exception of that report leaves the handler. The entry is removed in either
  case.
\<close>

definition voice_failed ::
  "string \<Rightarrow> nat registry \<Rightarrow> exc \<Rightarrow> exc option \<Rightarrow> effect list \<Rightarrow>
     handler_end \<times> nat registry \<times> effect list" where
  "voice_failed session_id active_sessions e reporting es =
     (if e = WebSocketDisconnect then
        (Returned, active_sessions(session_id := None),
         es @ [Print (''Voice session '' @ session_id @ '' disconnected'')])
      else
        (case reporting of
           None \<Rightarrow>
             (Returned, active_sessions(session_id := None),
              es @ [PrintExc ''Voice error: '' e, WsSendError [] e])
         | Some e' \<Rightarrow>
             (Propagated e', active_sessions(session_id := None),
              es @ [PrintExc ''Voice error: '' e, WsSendError [] e])))"

text \<open>
  \<^verbatim>\<open>voice_websocket\<close>: \<open>connecting\<close> is the upstream session that
  \<^verbatim>\<open>client.aio.live.connect\<close> opens, or the exception it raises; \<open>greeting\<close> and
  \<open>reporting\<close> say whether the sends of the ready signal and of the error report raise.
  The session id is stored without a look at the registry (line 103).
\<close>

definition voice_websocket ::
  "nat registry \<Rightarrow> string \<Rightarrow> exc + nat \<Rightarrow> exc option \<Rightarrow> exc option \<Rightarrow> voice_event list \<Rightarrow>
     handler_end \<times> nat registry \<times> effect list" where
  "voice_websocket active_sessions session_id connecting greeting reporting evs =
     (case connecting of
        Inl e \<Rightarrow> voice_failed session_id active_sessions e reporting []
      | Inr session \<Rightarrow>
          (let registered = active_sessions(session_id \<mapsto> session)
           in case greeting of
                Some e \<Rightarrow>
                  voice_failed session_id registered e reporting [WsSendJson ready_message]
              | None \<Rightarrow>
                  (case voice_run session_id
                          (\<lparr>receive_task = Active, send_task = Active\<rparr>, registered) evs of
                     ((t, reg), es) \<Rightarrow>
                       if receive_task t = Active \<and> send_task t = Active then
                         (Open, reg, WsSendJson ready_message # es)
                       else (Returned, reg, WsSendJson ready_message # es))))"

text \<open>
  One pass of the loop of \<^verbatim>\<open>video_websocket\<close>: the parsed message or the exception of
  \<^verbatim>\<open>receive_text\<close> and \<^verbatim>\<open>json.loads\<close>; whether the forwarding raises; the responses of
  the upstream turn and the exception that ends it, if any; whether a send to the client
  raises.
\<close>

record video_pass =
  parsed :: "exc + pyval"
  forwarding_frame :: "exc option"
  upstream_turn :: "server_content option list \<times> exc option"
  replying :: "exc option"

fun send_all :: "exc option \<Rightarrow> pyval list \<Rightarrow> unit comp" where
  "send_all r [] = returns ()"
| "send_all r (m # ms) = and_then (ws_send r (WsSendJson m)) (\<lambda>_. send_all r ms)"

definition video_body :: "video_pass \<Rightarrow> unit comp" where
  "video_body x =
     and_then (parsed x, [])
       (\<lambda>data.
          and_then (py_item data ''type'')
            (\<lambda>ty.
               and_then
                 (if ty = PStr ''audio'' then
                    and_then (py_item data ''data'')
                      (\<lambda>payload.
                         and_then (b64decode payload)
                           (\<lambda>audio_bytes.
                              call (SendRealtimeInput ''audio'' audio_bytes ''audio/pcm'')
                                (outcome_of (forwarding_frame x))))
                  else if ty = PStr ''video_frame'' then
                    and_then (py_item data ''data'')
                      (\<lambda>payload.
                         and_then (b64decode payload)
                           (\<lambda>frame_bytes.
                              call (SendRealtimeInput ''media_chunks'' frame_bytes ''image/jpeg'')
                                (outcome_of (forwarding_frame x))))
                  else returns ())
                 (\<lambda>_.
                    case upstream_turn x of
                      (responses, ending) \<Rightarrow>
                        and_then
                          (send_all (replying x)
                             (map audio_reply (concat (map inline_payloads responses))))
                          (\<lambda>_. case ending of None \<Rightarrow> returns () | Some e \<Rightarrow> raises e))))"

text \<open>
  The loop: a disconnect leaves it quietly; any other exception leaves it and is printed
  by the handler of the endpoint. The result says how the loop stands, the effects, and
  the passes that were not read.
\<close>

fun video_loop :: "video_pass list \<Rightarrow> loop_end option \<times> effect list \<times> video_pass list" where
  "video_loop [] = (Some Waiting, [], [])"
| "video_loop (x # xs) =
     (case video_body x of
        (Inl WebSocketDisconnect, es) \<Rightarrow> (None, es, xs)
      | (Inl e, es) \<Rightarrow> (Some (Raised e), es, xs)
      | (Inr _, es) \<Rightarrow> (case video_loop xs of (r, es', unread) \<Rightarrow> (r, es @ es', unread)))"

definition video_websocket ::
  "nat registry \<Rightarrow> string \<Rightarrow> exc + nat \<Rightarrow> exc option \<Rightarrow> video_pass list \<Rightarrow>
     handler_end \<times> nat registry \<times> effect list" where
  "video_websocket active_sessions session_id connecting greeting xs =
     (case connecting of
        Inl e \<Rightarrow> (Returned, active_sessions(session_id := None), [PrintExc ''Video error: '' e])
      | Inr session \<Rightarrow>
          (let registered = active_sessions(session_id \<mapsto> session)
           in case greeting of
                Some e \<Rightarrow>
                  (Returned, registered(session_id := None),
                   [WsSendJson ready_message, PrintExc ''Video error: '' e])
              | None \<Rightarrow>
                  (case video_loop xs of
                     (Some Waiting, es, _) \<Rightarrow> (Open, registered, WsSendJson ready_message # es)
                   | (Some (Raised e), es, _) \<Rightarrow>
                       (Returned, registered(session_id := None),
                        WsSendJson ready_message # es @ [PrintExc ''Video error: '' e])
                   | (None, es, _) \<Rightarrow>
                       (Returned, registered(session_id := None),
                        WsSendJson ready_message # es))))"

text \<open>The calls of a trace that forward media to the upstream session.\<close>

definition upstream_calls :: "effect list \<Rightarrow> effect list" where
  "upstream_calls es =
     filter (\<lambda>eff. case eff of SendRealtimeInput _ _ _ \<Rightarrow> True | _ \<Rightarrow> False) es"

text \<open>Passes and states for the evaluation of the relays.\<close>

definition audio_message :: "string \<Rightarrow> pyval" where
  "audio_message d = PDict [(''type'', PStr ''audio''), (''data'', PStr d)]"



definition stop_pass :: inbound where
  "stop_pass = \<lparr>incoming = Inr (PDict [(''type'', PStr ''stop'')]), forwarding = None\<rparr>"

definition upstream_closed :: outbound where
  "upstream_closed = \<lparr>arriving = UpRaises ''Connection closed'', delivering = None\<rparr>"

definition voice_idle :: voice_tasks where
  "voice_idle = \<lparr>receive_task = Active, send_task = Active\<rparr>"

text \<open>Both tasks of a voice session are running, or neither is.\<close>

definition both_active :: "voice_tasks \<Rightarrow> bool" where
  "both_active t = (receive_task t = Active \<and> send_task t = Active)"

definition neither_active :: "voice_tasks \<Rightarrow> bool" where
  "neither_active t = (receive_task t \<noteq> Active \<and> send_task t \<noteq> Active)"

text \<open>What a trace sends to the client, in order.\<close>

definition client_messages :: "effect list \<Rightarrow> effect list" where
  "client_messages es =
     filter
       (\<lambda>eff. case eff of
                WsSendJson _ \<Rightarrow> True
              | WsSendError _ _ \<Rightarrow> True
              | WsSendBytes _ \<Rightarrow> True
              | WsClose \<Rightarrow> True
              | _ \<Rightarrow> False)
       es"

text \<open>
  A call of a prompt builder inside the server process. The state that the handlers of
  the process share is the session registry. The body of a builder reads its parameters
  and local variables only and assigns local variables only, so the call gives the prompt
  and the registry as it was.
\<close>

type_synonym 'a call = "session_info registry \<Rightarrow> 'a \<times> session_info registry"




text \<open>
  Several voice connections of backend/main.py at once. They share the one registry; an
  open handler is known by the number of its connection and has its session id, its
  upstream session and its two tasks. An event opens a connection, which runs
  \<^verbatim>\<open>voice_websocket\<close> on the shared registry until it waits for its tasks, or reaches
  the tasks of an open handler, which run as in \<^const>\<open>voice_step\<close> on the shared registry.
  An event for a connection that is already open, or for one that is not open, changes
  nothing.
\<close>

record server =
  registry_now :: "nat registry"
  open_handlers :: "nat \<rightharpoonup> string \<times> nat \<times> voice_tasks"

datatype server_event =
    Connects nat string "exc + nat" "exc option" "exc option"
  | Reaches nat voice_event

definition server_step :: "server \<Rightarrow> server_event \<Rightarrow> server \<times> effect list" where
  "server_step sv ev =
     (case ev of
        Connects c session_id connecting greeting reporting \<Rightarrow>
          (case open_handlers sv c of
             Some _ \<Rightarrow> (sv, [])
           | None \<Rightarrow>
               (case voice_websocket (registry_now sv) session_id connecting greeting reporting [] of
                  (r, reg, es) \<Rightarrow>
                    (case connecting of
                       Inr session \<Rightarrow>
                         if r = Open then
                           (\<lparr>registry_now = reg,
                             open_handlers =
                               (open_handlers sv)(c \<mapsto> (session_id, session, voice_idle))\<rparr>, es)
                         else (sv\<lparr>registry_now := reg\<rparr>, es)
                     | Inl _ \<Rightarrow> (sv\<lparr>registry_now := reg\<rparr>, es))))
      | Reaches c vev \<Rightarrow>
          (case open_handlers sv c of
             None \<Rightarrow> (sv, [])
           | Some (session_id, session, t) \<Rightarrow>
               (case voice_step session_id (t, registry_now sv) vev of
                  ((t', reg), es) \<Rightarrow>
                    (\<lparr>registry_now = reg,
                      open_handlers =
                        (if both_active t' then (open_handlers sv)(c \<mapsto> (session_id, session, t'))
                         else (open_handlers sv)(c := None))\<rparr>, es))))"

fun server_run :: "server \<Rightarrow> server_event list \<Rightarrow> server \<times> effect list" where
  "server_run sv [] = (sv, [])"
| "server_run sv (ev # evs) =
     (case server_step sv ev of
        (sv', es) \<Rightarrow> (case server_run sv' evs of (sv'', es') \<Rightarrow> (sv'', es @ es')))"

definition server_start :: server where
  "server_start = \<lparr>registry_now = Map.empty, open_handlers = Map.empty\<rparr>"



text \<open>A server with one open voice handler.\<close>

definition busy_server :: server where
  "busy_server =
     \<lparr>registry_now = [''s'' \<mapsto> 7], open_handlers = [3 \<mapsto> (''s'', 7, voice_idle)]\<rparr>"

section \<open>Properties of the prompt builder\<close>

lemma sublist_after: "sublist xs ys \<Longrightarrow> sublist xs (zs @ ys)"
  by (metis append.assoc sublist_def)

text \<open>
  C6: for all arguments, the consultation prompt contains the user's message and the
  dog's name verbatim, as contiguous substrings.
\<close>

theorem consultation_prompt_contains_query_and_name:
  "sublist user_query
     (build_consultation_prompt dog_name breed age weight health_context user_query mode)
   \<and> sublist dog_name
     (build_consultation_prompt dog_name breed age weight health_context user_query mode)"
proof
  show "sublist user_query
     (build_consultation_prompt dog_name breed age weight health_context user_query mode)"
    unfolding build_consultation_prompt_def
    by (intro sublist_after sublist_append_rightI)
next
  show "sublist dog_name
     (build_consultation_prompt dog_name breed age weight health_context user_query mode)"
    unfolding build_consultation_prompt_def
    by (intro sublist_after sublist_append_rightI)
qed

section \<open>The memory gateway never raises\<close>

lemmas comp_defs =
  returns_def raises_def emit_def and_then_def try_except_def call_def outcome_of_def

lemmas gateway_splits = option.splits sum.splits prod.splits

lemma add_consultation_memory_total:
  "\<exists>r. fst (add_consultation_memory self d c m role md) = Inr r"
  by (auto simp add: add_consultation_memory_def comp_defs Let_def split: gateway_splits)

lemma add_consultation_memory_unavailable:
  "unavailable self (add_consultation_memory self d c m role md) \<Longrightarrow>
   fst (add_consultation_memory self d c m role md) = Inr False"
  by (auto simp add: unavailable_def backend_call_failed_def add_consultation_memory_def
      comp_defs Let_def split: gateway_splits)

lemma store_consultation_findings_total:
  "\<exists>r. fst (store_consultation_findings self d c fs) = Inr r"
  by (auto simp add: store_consultation_findings_def comp_defs Let_def split: gateway_splits)

lemma store_consultation_findings_unavailable:
  "unavailable self (store_consultation_findings self d c fs) \<Longrightarrow>
   fst (store_consultation_findings self d c fs) = Inr False"
  by (auto simp add: unavailable_def backend_call_failed_def store_consultation_findings_def
      comp_defs Let_def split: gateway_splits)

lemma add_medication_total:
  "\<exists>r. fst (add_medication self d m dos fr) = Inr r"
  by (auto simp add: add_medication_def comp_defs Let_def split: gateway_splits)

lemma add_medication_unavailable:
  "unavailable self (add_medication self d m dos fr) \<Longrightarrow>
   fst (add_medication self d m dos fr) = Inr False"
  by (auto simp add: unavailable_def backend_call_failed_def add_medication_def
      comp_defs Let_def split: gateway_splits)

lemma add_vaccination_total:
  "\<exists>r. fst (add_vaccination self d v dt vet) = Inr r"
  by (auto simp add: add_vaccination_def comp_defs Let_def split: gateway_splits if_splits)

lemma add_vaccination_unavailable:
  "unavailable self (add_vaccination self d v dt vet) \<Longrightarrow>
   fst (add_vaccination self d v dt vet) = Inr False"
  by (auto simp add: unavailable_def backend_call_failed_def add_vaccination_def
      comp_defs Let_def split: gateway_splits if_splits)

lemma get_health_context_total:
  "\<exists>r. fst (get_health_context self d q l) = Inr r"
  by (auto simp add: get_health_context_def comp_defs split: gateway_splits)

lemma get_health_context_unavailable:
  "unavailable self (get_health_context self d q l) \<Longrightarrow>
   fst (get_health_context self d q l) = Inr []"
  by (auto simp add: unavailable_def backend_call_failed_def get_health_context_def
      comp_defs split: gateway_splits if_splits)

lemma get_medications_total:
  "\<exists>r. fst (get_medications self d) = Inr r"
  by (auto simp add: get_medications_def comp_defs split: gateway_splits)

lemma get_medications_unavailable:
  "unavailable self (get_medications self d) \<Longrightarrow> fst (get_medications self d) = Inr []"
  by (auto simp add: unavailable_def backend_call_failed_def get_medications_def
      comp_defs split: gateway_splits)

lemma get_vaccinations_total:
  "\<exists>r. fst (get_vaccinations self d) = Inr r"
  by (auto simp add: get_vaccinations_def comp_defs split: gateway_splits)

lemma get_vaccinations_unavailable:
  "unavailable self (get_vaccinations self d) \<Longrightarrow> fst (get_vaccinations self d) = Inr []"
  by (auto simp add: unavailable_def backend_call_failed_def get_vaccinations_def
      comp_defs split: gateway_splits)

text \<open>
  C4: every operation of the memory gateway returns a value for every input, never an
  exception; when the backend is unconfigured or the call made to it fails, the three
  recall operations return the empty result and the four remember operations return
  False.
\<close>

theorem memory_gateway_never_raises:
  "(\<exists>r. fst (get_health_context self dog_id query limit) = Inr r) \<and>
   (\<exists>r. fst (get_medications self dog_id) = Inr r) \<and>
   (\<exists>r. fst (get_vaccinations self dog_id) = Inr r) \<and>
   (\<exists>r. fst (add_consultation_memory self dog_id cid message role metadata) = Inr r) \<and>
   (\<exists>r. fst (store_consultation_findings self dog_id cid fs) = Inr r) \<and>
   (\<exists>r. fst (add_medication self dog_id medication dosage frequency) = Inr r) \<and>
   (\<exists>r. fst (add_vaccination self dog_id vaccine date vet) = Inr r) \<and>
   (unavailable self (get_health_context self dog_id query limit) \<longrightarrow>
      fst (get_health_context self dog_id query limit) = Inr []) \<and>
   (unavailable self (get_medications self dog_id) \<longrightarrow>
      fst (get_medications self dog_id) = Inr []) \<and>
   (unavailable self (get_vaccinations self dog_id) \<longrightarrow>
      fst (get_vaccinations self dog_id) = Inr []) \<and>
   (unavailable self (add_consultation_memory self dog_id cid message role metadata) \<longrightarrow>
      fst (add_consultation_memory self dog_id cid message role metadata) = Inr False) \<and>
   (unavailable self (store_consultation_findings self dog_id cid fs) \<longrightarrow>
      fst (store_consultation_findings self dog_id cid fs) = Inr False) \<and>
   (unavailable self (add_medication self dog_id medication dosage frequency) \<longrightarrow>
      fst (add_medication self dog_id medication dosage frequency) = Inr False) \<and>
   (unavailable self (add_vaccination self dog_id vaccine date vet) \<longrightarrow>
      fst (add_vaccination self dog_id vaccine date vet) = Inr False)"
  by (simp add: get_health_context_total get_medications_total get_vaccinations_total
    add_consultation_memory_total store_consultation_findings_total add_medication_total
    add_vaccination_total get_health_context_unavailable get_medications_unavailable
    get_vaccinations_unavailable add_consultation_memory_unavailable
    store_consultation_findings_unavailable add_medication_unavailable
    add_vaccination_unavailable)

text \<open>The gateway on a configured backend whose every call raises.\<close>

theorem memory_gateway_never_raises_witness:
  "unavailable \<lparr>client = Some failing_client\<rparr>
     (get_health_context \<lparr>client = Some failing_client\<rparr> ''dog1'' ''limping'' 5) \<and>
   fst (get_health_context \<lparr>client = Some failing_client\<rparr> ''dog1'' ''limping'' 5) = Inr [] \<and>
   unavailable \<lparr>client = Some failing_client\<rparr>
     (get_medications \<lparr>client = Some failing_client\<rparr> ''dog1'') \<and>
   fst (get_medications \<lparr>client = Some failing_client\<rparr> ''dog1'') = Inr [] \<and>
   unavailable \<lparr>client = Some failing_client\<rparr>
     (get_vaccinations \<lparr>client = Some failing_client\<rparr> ''dog1'') \<and>
   fst (get_vaccinations \<lparr>client = Some failing_client\<rparr> ''dog1'') = Inr [] \<and>
   unavailable \<lparr>client = Some failing_client\<rparr>
     (add_consultation_memory \<lparr>client = Some failing_client\<rparr> ''dog1'' ''c1'' ''hello''
        ''user'' None) \<and>
   fst (add_consultation_memory \<lparr>client = Some failing_client\<rparr> ''dog1'' ''c1'' ''hello''
        ''user'' None) = Inr False \<and>
   unavailable \<lparr>client = Some failing_client\<rparr>
     (store_consultation_findings \<lparr>client = Some failing_client\<rparr> ''dog1'' ''c1''
        \<lparr>summary = None, symptoms = None, conditions = None, recommendations = None\<rparr>) \<and>
   fst (store_consultation_findings \<lparr>client = Some failing_client\<rparr> ''dog1'' ''c1''
        \<lparr>summary = None, symptoms = None, conditions = None, recommendations = None\<rparr>)
     = Inr False \<and>
   unavailable \<lparr>client = Some failing_client\<rparr>
     (add_medication \<lparr>client = Some failing_client\<rparr> ''dog1'' ''Carprofen'' ''25mg'' ''daily'') \<and>
   fst (add_medication \<lparr>client = Some failing_client\<rparr> ''dog1'' ''Carprofen'' ''25mg'' ''daily'')
     = Inr False \<and>
   unavailable \<lparr>client = Some failing_client\<rparr>
     (add_vaccination \<lparr>client = Some failing_client\<rparr> ''dog1'' ''Rabies'' ''2024-01-01'' []) \<and>
   fst (add_vaccination \<lparr>client = Some failing_client\<rparr> ''dog1'' ''Rabies'' ''2024-01-01'' [])
     = Inr False"
proof -
  let ?S = "\<lparr>client = Some failing_client\<rparr>"
  note ev = unavailable_def backend_call_failed_def failing_client_def comp_defs Let_def
  have u1: "unavailable ?S (get_health_context ?S ''dog1'' ''limping'' 5)"
    by (simp add: ev get_health_context_def)
  have u2: "unavailable ?S (get_medications ?S ''dog1'')"
    by (simp add: ev get_medications_def)
  have u3: "unavailable ?S (get_vaccinations ?S ''dog1'')"
    by (simp add: ev get_vaccinations_def)
  have u4: "unavailable ?S (add_consultation_memory ?S ''dog1'' ''c1'' ''hello'' ''user'' None)"
    by (simp add: ev add_consultation_memory_def)
  have u5: "unavailable ?S (store_consultation_findings ?S ''dog1'' ''c1''
        \<lparr>summary = None, symptoms = None, conditions = None, recommendations = None\<rparr>)"
    by (simp add: ev store_consultation_findings_def)
  have u6: "unavailable ?S (add_medication ?S ''dog1'' ''Carprofen'' ''25mg'' ''daily'')"
    by (simp add: ev add_medication_def)
  have u7: "unavailable ?S (add_vaccination ?S ''dog1'' ''Rabies'' ''2024-01-01'' [])"
    by (simp add: ev add_vaccination_def)
  from u1 u2 u3 u4 u5 u6 u7 show ?thesis
    using memory_gateway_never_raises [of ?S "''dog1''"
      "''limping''" 5 "''c1''" "''hello''" "''user''" None
      "\<lparr>summary = None, symptoms = None, conditions = None, recommendations = None\<rparr>"
      "''Carprofen''" "''25mg''" "''daily''" "''Rabies''" "''2024-01-01''" "[]"]
    by blast
qed

section \<open>Determinism of the prompt builder\<close>














section \<open>The consultation endpoint\<close>





lemma add_consultation_memory_effects:
  "snd (add_consultation_memory svc d c m role None) =
     (case client svc of
        None \<Rightarrow> []
      | Some cl \<Rightarrow>
          (let md = [(''type'', PStr ''consultation''), (''consultation_id'', PStr c),
                     (''role'', PStr role)]
           in case add cl [(role, m)] d md of
                None \<Rightarrow> [MemAdd [(role, m)] d md]
              | Some e \<Rightarrow> [MemAdd [(role, m)] d md, PrintExc ''Mem0 add error: '' e]))"
  by (simp add: add_consultation_memory_def comp_defs Let_def dict_merge_def
      split: option.splits)

lemma get_health_context_effects:
  "snd (get_health_context svc d q l) =
     (case client svc of
        None \<Rightarrow> []
      | Some cl \<Rightarrow>
          (case search cl q d l of
             Inr _ \<Rightarrow> [MemSearch q d l]
           | Inl e \<Rightarrow> [MemSearch q d l, PrintExc ''Mem0 search error: '' e]))"
  by (simp add: get_health_context_def comp_defs split: option.splits sum.splits)

lemma consultation_context_returns:
  "\<exists>hc. fst (consultation_context ms d c m) = Inr hc"
  by (simp add: consultation_context_def returns_def split: option.splits prod.splits sum.splits)

lemma consultation_context_sends_nothing:
  "WsSendError p e \<notin> set (snd (consultation_context ms d c m))"
proof (cases ms)
  case None
  then show ?thesis by (simp add: consultation_context_def returns_def)
next
  case (Some svc)
  obtain r1 es1 where g: "get_health_context svc d m 5 = (r1, es1)" by (cases "get_health_context svc d m 5")
  obtain r2 es2 where a: "add_consultation_memory svc d c m ''user'' None = (r2, es2)"
    by (cases "add_consultation_memory svc d c m ''user'' None")
  have e1: "WsSendError p e \<notin> set es1"
    using get_health_context_effects [of svc d m 5] g
    by (auto split: option.splits sum.splits)
  have e2: "WsSendError p e \<notin> set es2"
    using add_consultation_memory_effects [of svc d c m "''user''"] a
    by (auto simp: Let_def split: option.splits)
  show ?thesis
    using Some g a e1 e2
    by (auto simp: consultation_context_def split: sum.splits)
qed

lemma store_ai_response_returns:
  "fst (store_ai_response ms d c t) = Inr ()"
  by (auto simp: store_ai_response_def comp_defs split: option.splits prod.splits sum.splits)

lemma store_ai_response_effects:
  "snd (store_ai_response ms d c t) =
     (case ms of
        None \<Rightarrow> []
      | Some svc \<Rightarrow>
          (case add_consultation_memory svc d c t ''assistant'' None of
             (Inl e, es) \<Rightarrow> es @ [PrintExc ''Mem0 store error: '' e]
           | (Inr _, es) \<Rightarrow> es))"
  by (auto simp: store_ai_response_def comp_defs split: option.splits prod.splits sum.splits)

lemma store_ai_response_sends_nothing:
  "WsSendError p e \<notin> set (snd (store_ai_response ms d c t))"
proof (cases ms)
  case None
  then show ?thesis by (simp add: store_ai_response_effects)
next
  case (Some svc)
  obtain r2 es2 where a: "add_consultation_memory svc d c t ''assistant'' None = (r2, es2)"
    by (cases "add_consultation_memory svc d c t ''assistant'' None")
  have e2: "WsSendError p e \<notin> set es2"
    using add_consultation_memory_effects [of svc d c t "''assistant''"] a
    by (auto simp: Let_def split: option.splits)
  show ?thesis using Some a e2
    by (auto simp: store_ai_response_effects split: sum.splits)
qed

lemma store_ai_response_stores:
  assumes "ms = Some svc" "client svc = Some cl"
  shows "MemAdd [(''assistant'', t)] d
           [(''type'', PStr ''consultation''), (''consultation_id'', PStr c),
            (''role'', PStr ''assistant'')]
         \<in> set (snd (store_ai_response ms d c t))"
proof -
  obtain r2 es2 where a: "add_consultation_memory svc d c t ''assistant'' None = (r2, es2)"
    by (cases "add_consultation_memory svc d c t ''assistant'' None")
  have "MemAdd [(''assistant'', t)] d
           [(''type'', PStr ''consultation''), (''consultation_id'', PStr c),
            (''role'', PStr ''assistant'')] \<in> set es2"
    using add_consultation_memory_effects [of svc d c t "''assistant''"] a assms
    by (auto simp: Let_def split: option.splits)
  then show ?thesis using assms a
    by (auto simp: store_ai_response_effects split: sum.splits)
qed

lemma consultation_turn_unconfigured:
  assumes "get data ''message'' [] \<noteq> []"
  shows "consultation_turn ms None sid None data =
           (Inr (),
            snd (consultation_context ms (get data ''dog_id'' ''default'')
                   (get data ''consultation_id'' sid) (get data ''message'' [])) @
            snd (store_ai_response ms (get data ''dog_id'' ''default'')
                   (get data ''consultation_id'' sid) apology) @
            [WsSendJson (response_message apology)])"
proof -
  obtain hc es where c: "consultation_context ms (get data ''dog_id'' ''default'')
                   (get data ''consultation_id'' sid) (get data ''message'' []) = (Inr hc, es)"
    using consultation_context_returns
    by (metis prod.collapse)
  obtain es' where s: "store_ai_response ms (get data ''dog_id'' ''default'')
                   (get data ''consultation_id'' sid) apology = (Inr (), es')"
    using store_ai_response_returns by (metis prod.collapse)
  show ?thesis
    using assms
    by (simp add: consultation_turn_def Let_def c s and_then_def try_except_def returns_def
        ws_send_def call_def outcome_of_def)
qed

lemma client_messages_append [simp]:
  "client_messages (es @ es') = client_messages es @ client_messages es'"
  by (simp add: client_messages_def)

lemma add_consultation_memory_silent:
  "client_messages (snd (add_consultation_memory svc d c m role None)) = []"
  by (simp add: add_consultation_memory_effects client_messages_def Let_def
      split: option.splits)

lemma get_health_context_silent:
  "client_messages (snd (get_health_context svc d q l)) = []"
  by (simp add: get_health_context_effects client_messages_def split: option.splits sum.splits)

lemma consultation_context_silent:
  "client_messages (snd (consultation_context ms d c m)) = []"
proof (cases ms)
  case None
  then show ?thesis by (simp add: consultation_context_def returns_def client_messages_def)
next
  case (Some svc)
  obtain r1 es1 where g: "get_health_context svc d m 5 = (r1, es1)"
    by (cases "get_health_context svc d m 5")
  obtain r2 es2 where a: "add_consultation_memory svc d c m ''user'' None = (r2, es2)"
    by (cases "add_consultation_memory svc d c m ''user'' None")
  have e1: "client_messages es1 = []"
    using get_health_context_silent [of svc d m 5] g by simp
  have e2: "client_messages es2 = []"
    using add_consultation_memory_silent [of svc d c m "''user''"] a by simp
  show ?thesis
    using Some g a e1 e2
    by (auto simp: consultation_context_def client_messages_def split: sum.splits)
qed

lemma store_ai_response_silent:
  "client_messages (snd (store_ai_response ms d c t)) = []"
proof (cases ms)
  case None
  then show ?thesis by (simp add: store_ai_response_effects client_messages_def)
next
  case (Some svc)
  obtain r2 es2 where a: "add_consultation_memory svc d c t ''assistant'' None = (r2, es2)"
    by (cases "add_consultation_memory svc d c t ''assistant'' None")
  have e2: "client_messages es2 = []"
    using add_consultation_memory_silent [of svc d c t "''assistant''"] a by simp
  show ?thesis using Some a e2
    by (auto simp: store_ai_response_effects client_messages_def split: sum.splits)
qed

text \<open>
  C10: without a generation client, a consultation message with text is answered by
  exactly one message to the client, of type \<open>response\<close> and with the fixed apology as
  its text, so no error message goes out; and with a configured memory service the
  apology is handed to the memory backend as an assistant message.
\<close>

theorem consultation_unconfigured_apology:
  assumes "get data ''message'' [] \<noteq> []"
  shows "fst (consultation_turn mem0_service None session_id None data) = Inr ()
       \<and> client_messages (snd (consultation_turn mem0_service None session_id None data)) =
           [WsSendJson
              (PDict [(''type'', PStr ''response''),
                      (''role'', PStr ''assistant''),
                      (''text'',
                       PStr (''I'' @ [CHR 0x27] @
                         ''m sorry, the AI service is not configured. Please check the API key.'')),
                      (''audio'', PNone),
                      (''entities'',
                       PDict [(''symptoms'', PList []), (''conditions'', PList [])])])]
       \<and> (\<forall>svc c. mem0_service = Some svc \<and> client svc = Some c \<longrightarrow>
             MemAdd
               [(''assistant'',
                 ''I'' @ [CHR 0x27] @
                   ''m sorry, the AI service is not configured. Please check the API key.'')]
               (get data ''dog_id'' ''default'')
               [(''type'', PStr ''consultation''),
                (''consultation_id'', PStr (get data ''consultation_id'' session_id)),
                (''role'', PStr ''assistant'')]
             \<in> set (snd (consultation_turn mem0_service None session_id None data)))"
proof -
  note t = consultation_turn_unconfigured [OF assms, of mem0_service session_id]
  have a: "fst (consultation_turn mem0_service None session_id None data) = Inr ()"
    by (simp add: t)
  have b: "client_messages (snd (consultation_turn mem0_service None session_id None data)) =
      [WsSendJson (response_message apology)]"
    by (simp add: t consultation_context_silent store_ai_response_silent)
       (simp add: client_messages_def)
  have c: "\<forall>svc c. mem0_service = Some svc \<and> client svc = Some c \<longrightarrow>
      MemAdd [(''assistant'', apology)] (get data ''dog_id'' ''default'')
        [(''type'', PStr ''consultation''),
         (''consultation_id'', PStr (get data ''consultation_id'' session_id)),
         (''role'', PStr ''assistant'')]
      \<in> set (snd (consultation_turn mem0_service None session_id None data))"
  proof (intro allI impI)
    fix svc c
    assume "mem0_service = Some svc \<and> client svc = Some c"
    then have "MemAdd [(''assistant'', apology)] (get data ''dog_id'' ''default'')
        [(''type'', PStr ''consultation''),
         (''consultation_id'', PStr (get data ''consultation_id'' session_id)),
         (''role'', PStr ''assistant'')]
      \<in> set (snd (store_ai_response mem0_service (get data ''dog_id'' ''default'')
                     (get data ''consultation_id'' session_id) apology))"
      using store_ai_response_stores by blast
    then show "MemAdd [(''assistant'', apology)] (get data ''dog_id'' ''default'')
        [(''type'', PStr ''consultation''),
         (''consultation_id'', PStr (get data ''consultation_id'' session_id)),
         (''role'', PStr ''assistant'')]
      \<in> set (snd (consultation_turn mem0_service None session_id None data))"
      by (simp add: t)
  qed
  show ?thesis
    using a b c unfolding response_message_def apology_def by (intro conjI)
qed

text \<open>
  A message with text, a working memory backend, no generation client.
\<close>

theorem consultation_unconfigured_apology_witness:
  "get [(''message'', ''He is limping'')] ''message'' [] \<noteq> []
   \<and> fst (consultation_turn (Some \<lparr>client = Some accepting_client\<rparr>) None ''s1'' None
          [(''message'', ''He is limping'')]) = Inr ()
   \<and> client_messages (snd (consultation_turn (Some \<lparr>client = Some accepting_client\<rparr>) None
          ''s1'' None [(''message'', ''He is limping'')])) =
       [WsSendJson
          (PDict [(''type'', PStr ''response''),
                  (''role'', PStr ''assistant''),
                  (''text'',
                   PStr (''I'' @ [CHR 0x27] @
                     ''m sorry, the AI service is not configured. Please check the API key.'')),
                  (''audio'', PNone),
                  (''entities'',
                   PDict [(''symptoms'', PList []), (''conditions'', PList [])])])]
   \<and> MemAdd
        [(''assistant'',
          ''I'' @ [CHR 0x27] @
            ''m sorry, the AI service is not configured. Please check the API key.'')]
        ''default''
        [(''type'', PStr ''consultation''), (''consultation_id'', PStr ''s1''),
         (''role'', PStr ''assistant'')]
      \<in> set (snd (consultation_turn (Some \<lparr>client = Some accepting_client\<rparr>) None ''s1'' None
          [(''message'', ''He is limping'')]))"
proof -
  have h: "get [(''message'', ''He is limping'')] ''message'' [] \<noteq> []"
    by (simp add: get_def)
  have d: "get [(''message'', ''He is limping'')] ''dog_id'' ''default'' = ''default''"
    "get [(''message'', ''He is limping'')] ''consultation_id'' ''s1'' = ''s1''"
    by (simp_all add: get_def)
  note t = consultation_unconfigured_apology
    [OF h, of "Some \<lparr>client = Some accepting_client\<rparr>" "''s1''"]
  have m: "MemAdd
        [(''assistant'',
          ''I'' @ [CHR 0x27] @
            ''m sorry, the AI service is not configured. Please check the API key.'')]
        ''default''
        [(''type'', PStr ''consultation''), (''consultation_id'', PStr ''s1''),
         (''role'', PStr ''assistant'')]
      \<in> set (snd (consultation_turn (Some \<lparr>client = Some accepting_client\<rparr>) None ''s1'' None
          [(''message'', ''He is limping'')]))"
    using t [THEN conjunct2, THEN conjunct2] unfolding d by simp
  show ?thesis
    using h t [THEN conjunct1] t [THEN conjunct2, THEN conjunct1] m by (intro conjI)
qed

section \<open>The prescription endpoint\<close>

lemma known_medications_returns:
  "\<exists>meds. fst (known_medications ms d) = Inr meds"
  by (auto simp: known_medications_def get_medications_def comp_defs
      split: option.splits prod.splits sum.splits)

lemma known_medications_silent:
  "client_messages (snd (known_medications ms d)) = []"
  by (auto simp: known_medications_def get_medications_def comp_defs client_messages_def
      split: option.splits prod.splits sum.splits)

lemma unsafe_contains_safe: "sublist ''UNSAFE'' s \<Longrightarrow> sublist ''SAFE'' s"
proof -
  have "sublist ''SAFE'' ''UNSAFE''"
    using sublist_appendI [of "''SAFE''" "''UN''" "[]"] by simp
  then show "sublist ''UNSAFE'' s \<Longrightarrow> sublist ''SAFE'' s"
    by (rule sublist_order.order.trans)
qed

lemma not_safe_contains_safe: "sublist ''NOT SAFE'' s \<Longrightarrow> sublist ''SAFE'' s"
proof -
  have "sublist ''SAFE'' ''NOT SAFE''"
    using sublist_appendI [of "''SAFE''" "''NOT ''" "[]"] by simp
  then show "sublist ''NOT SAFE'' s \<Longrightarrow> sublist ''SAFE'' s"
    by (rule sublist_order.order.trans)
qed

lemma prescription_turn_check:
  assumes "get data ''action'' ''list'' = ''check_interaction''"
    and "get data ''medication'' [] \<noteq> []"
    and "fst (known_medications ms (get data ''dog_id'' ''default'')) = Inr current_meds"
    and "generate_content c GEMINI_MODEL
           (build_prescription_prompt (get data ''dog_name'' ''Your dog'') current_meds
              (get data ''medication'' []) (get data ''dosage'' [])) = Inr text"
  shows "prescription_turn uu ms (Some c) None data =
           (Inr (),
            snd (known_medications ms (get data ''dog_id'' ''default'')) @
            [GenerateContent GEMINI_MODEL
               (build_prescription_prompt (get data ''dog_name'' ''Your dog'') current_meds
                  (get data ''medication'' []) (get data ''dosage'' [])),
             WsSendJson
               (PDict [(''type'', PStr ''response''),
                       (''action'', PStr ''interaction_check''),
                       (''medication'', PStr (get data ''medication'' [])),
                       (''interactions'', PStr text),
                       (''safe_to_prescribe'', PBool (sublist ''SAFE'' (upper uu text)))])])"
proof -
  obtain es where k:
    "known_medications ms (get data ''dog_id'' ''default'') = (Inr current_meds, es)"
    using assms(3) by (metis prod.collapse)
  show ?thesis
    using assms(1,2,4)
    by (simp add: prescription_turn_def Let_def k and_then_def returns_def ws_send_def
        call_def outcome_of_def interaction_message_def)
qed

text \<open>
  C9: for a \<open>check_interaction\<close> message that names a medication, with a generation
  client that answers with a text, the one message sent to the client is the interaction
  reply whose flag \<open>safe_to_prescribe\<close> is exactly the test that the text in upper
  case contains \<open>SAFE\<close>; so a text whose upper case contains \<open>UNSAFE\<close> or
  \<open>NOT SAFE\<close> sets the flag as well. On ASCII text the upper case changes the 26
  letters only.
\<close>

theorem safe_flag_is_substring_test:
  assumes "get data ''action'' ''list'' = ''check_interaction''"
    and "get data ''medication'' [] \<noteq> []"
    and "fst (known_medications mem0_service (get data ''dog_id'' ''default'')) = Inr current_meds"
    and "generate_content c GEMINI_MODEL
           (build_prescription_prompt (get data ''dog_name'' ''Your dog'') current_meds
              (get data ''medication'' []) (get data ''dosage'' [])) = Inr text"
  shows "fst (prescription_turn unicode_upper mem0_service (Some c) None data) = Inr ()
       \<and> client_messages (snd (prescription_turn unicode_upper mem0_service (Some c) None data)) =
           [WsSendJson
              (PDict [(''type'', PStr ''response''),
                      (''action'', PStr ''interaction_check''),
                      (''medication'', PStr (get data ''medication'' [])),
                      (''interactions'', PStr text),
                      (''safe_to_prescribe'',
                       PBool (sublist ''SAFE'' (upper unicode_upper text)))])]
       \<and> (is_ascii text \<longrightarrow> upper unicode_upper text = map upper_char text)
       \<and> (sublist ''UNSAFE'' (upper unicode_upper text) \<longrightarrow>
            sublist ''SAFE'' (upper unicode_upper text))
       \<and> (sublist ''NOT SAFE'' (upper unicode_upper text) \<longrightarrow>
            sublist ''SAFE'' (upper unicode_upper text))"
  using prescription_turn_check [OF assms, of unicode_upper]
    known_medications_silent [of mem0_service "get data ''dog_id'' ''default''"]
    unsafe_contains_safe not_safe_contains_safe
  by (simp add: client_messages_def upper_def)

text \<open>
  An answer that says \<open>unsafe\<close> in lower case.
\<close>

theorem safe_flag_is_substring_test_witness:
  "get [(''action'', ''check_interaction''), (''medication'', ''Aspirin'')] ''action'' ''list''
     = ''check_interaction''
   \<and> get [(''action'', ''check_interaction''), (''medication'', ''Aspirin'')] ''medication'' []
       \<noteq> []
   \<and> fst (known_medications None ''default'') = Inr []
   \<and> generate_content unsafe_answer GEMINI_MODEL
        (build_prescription_prompt ''Your dog'' [] ''Aspirin'' []) = Inr ''unsafe with carprofen''
   \<and> is_ascii ''unsafe with carprofen''
   \<and> sublist ''UNSAFE'' (upper (\<lambda>s. s) ''unsafe with carprofen'')
   \<and> client_messages (snd (prescription_turn (\<lambda>s. s) None (Some unsafe_answer) None
          [(''action'', ''check_interaction''), (''medication'', ''Aspirin'')])) =
       [WsSendJson
          (PDict [(''type'', PStr ''response''),
                  (''action'', PStr ''interaction_check''),
                  (''medication'', PStr ''Aspirin''),
                  (''interactions'', PStr ''unsafe with carprofen''),
                  (''safe_to_prescribe'', PBool True)])]"
proof -
  let ?D = "[(''action'', ''check_interaction''), (''medication'', ''Aspirin'')]"
  have g: "get ?D ''action'' ''list'' = ''check_interaction''"
    "get ?D ''medication'' [] = ''Aspirin''" "get ?D ''dosage'' [] = []"
    "get ?D ''dog_name'' ''Your dog'' = ''Your dog''" "get ?D ''dog_id'' ''default'' = ''default''"
    by (simp_all add: get_def)
  have ne: "get ?D ''medication'' [] \<noteq> []" by (simp add: g)
  have k: "fst (known_medications None (get ?D ''dog_id'' ''default'')) = Inr []"
    by (simp add: known_medications_def returns_def)
  have h: "generate_content unsafe_answer GEMINI_MODEL
      (build_prescription_prompt (get ?D ''dog_name'' ''Your dog'') []
         (get ?D ''medication'' []) (get ?D ''dosage'' [])) = Inr ''unsafe with carprofen''"
    by (simp add: unsafe_answer_def)
  have a: "is_ascii ''unsafe with carprofen''" by code_simp
  have up: "upper (\<lambda>s. s) ''unsafe with carprofen'' = ''UNSAFE WITH CARPROFEN''"
    by code_simp
  have u: "sublist ''UNSAFE'' (upper (\<lambda>s. s) ''unsafe with carprofen'')"
    unfolding up using sublist_append_rightI [of "''UNSAFE''" "'' WITH CARPROFEN''"] by simp
  note t = safe_flag_is_substring_test [OF g(1) ne k h, of "\<lambda>s. s"]
  from t u have s: "sublist ''SAFE'' (upper (\<lambda>s. s) ''unsafe with carprofen'')"
    by blast
  have cm: "client_messages (snd (prescription_turn (\<lambda>s. s) None (Some unsafe_answer) None ?D)) =
       [WsSendJson
          (PDict [(''type'', PStr ''response''),
                  (''action'', PStr ''interaction_check''),
                  (''medication'', PStr ''Aspirin''),
                  (''interactions'', PStr ''unsafe with carprofen''),
                  (''safe_to_prescribe'', PBool True)])]"
    using t [THEN conjunct2, THEN conjunct1] unfolding g(2) eqTrueI [OF s] .
  have k': "fst (known_medications None ''default'') = Inr []"
    using k unfolding g(5) .
  have h': "generate_content unsafe_answer GEMINI_MODEL
        (build_prescription_prompt ''Your dog'' [] ''Aspirin'' []) = Inr ''unsafe with carprofen''"
    using h unfolding g .
  show ?thesis
    using g(1) ne k' h' a u cm by (intro conjI)
qed

section \<open>Base64 round trip\<close>

lemma of_char_char_of_small: "n < 256 \<Longrightarrow> (of_char (char_of n) :: nat) = n"
  by (simp add: of_char_of)

lemma b64_value_char: "v < 64 \<Longrightarrow> b64_value (b64_char v) = Some v"
  by (auto simp: b64_value_def b64_char_def Let_def of_char_char_of_small)

lemma b64_char_ascii: "v < 64 \<Longrightarrow> (of_char (b64_char v) :: nat) < 128"
  by (auto simp: b64_char_def of_char_char_of_small)

lemma b64_char_not_pad: "v < 64 \<Longrightarrow> b64_char v \<noteq> CHR ''=''"
proof
  assume "v < 64" and "b64_char v = CHR ''=''"
  then have "b64_value (CHR ''='') = Some v" using b64_value_char by metis
  then show False by (simp add: b64_value_def)
qed

lemma a2b_data:
  "v < 64 \<Longrightarrow> a2b_base64 q l p out (b64_char v # cs) =
     (if q = 0 then a2b_base64 1 v 0 out cs
      else if q = 1 then a2b_base64 2 (v mod 16) 0 (out @ [of_nat (l * 4 + v div 16)]) cs
      else if q = 2 then a2b_base64 3 (v mod 4) 0 (out @ [of_nat (l * 16 + v div 4)]) cs
      else a2b_base64 0 0 0 (out @ [of_nat (l * 64 + v)]) cs)"
  by (simp add: b64_value_char b64_char_not_pad)

lemma a2b_pad:
  "a2b_base64 q l p out (CHR ''='' # cs) =
     (if q \<ge> 2 then (if q + (p + 1) \<ge> 4 then Inr out else a2b_base64 q l (p + 1) out cs)
      else a2b_base64 q l p out cs)"
  by simp

lemma byte_bound: "unat (a :: byte) < 256"
  using unsigned_less [of a, where ?'a = nat] by simp

lemma dm1: "y < n \<Longrightarrow> (x * n + y) div n = (x::nat)"
  by simp

lemma dm2: "y < n \<Longrightarrow> (x * n + y) mod n = (y::nat)"
  by simp

lemma hi4: "(b::nat) < 256 \<Longrightarrow> b div 16 < 16"
  by (simp add: less_mult_imp_div_less)

lemma hi2: "(c::nat) < 256 \<Longrightarrow> c div 64 < 4"
  by (simp add: less_mult_imp_div_less)

lemma hi6: "(a::nat) < 256 \<Longrightarrow> a div 4 < 64"
  by (simp add: less_mult_imp_div_less)

lemma sextets:
  fixes a b c :: nat
  assumes "a < 256" "b < 256" "c < 256"
  shows "a div 4 < 64" "(a mod 4) * 16 + b div 16 < 64" "(b mod 16) * 4 + c div 64 < 64"
    "c mod 64 < 64" "(a mod 4) * 16 < 64" "(b mod 16) * 4 < 64"
proof -
  have "a mod 4 < 4" "b mod 16 < 16" by simp_all
  moreover note hi4 [OF assms(2)] hi2 [OF assms(3)] hi6 [OF assms(1)]
  ultimately show "a div 4 < 64" "(a mod 4) * 16 + b div 16 < 64"
    "(b mod 16) * 4 + c div 64 < 64" "c mod 64 < 64" "(a mod 4) * 16 < 64" "(b mod 16) * 4 < 64"
    by linarith+
qed

lemma regroup:
  fixes a b c :: nat
  assumes "a < 256" "b < 256" "c < 256"
  shows "a div 4 * 4 + ((a mod 4) * 16 + b div 16) div 16 = a"
    "((a mod 4) * 16 + b div 16) mod 16 * 16 + ((b mod 16) * 4 + c div 64) div 4 = b"
    "((b mod 16) * 4 + c div 64) mod 4 * 64 + c mod 64 = c"
    "a div 4 * 4 + ((a mod 4) * 16) div 16 = a"
    "((a mod 4) * 16 + b div 16) mod 16 * 16 + ((b mod 16) * 4) div 4 = b"
  by (simp_all add: dm1 dm2 hi4 [OF assms(2)] hi2 [OF assms(3)])

lemma a2b_quad:
  assumes "v0 < 64" "v1 < 64" "v2 < 64" "v3 < 64"
  shows "a2b_base64 0 l p out (b64_char v0 # b64_char v1 # b64_char v2 # b64_char v3 # cs) =
           a2b_base64 0 0 0
             (out @ [of_nat (v0 * 4 + v1 div 16), of_nat (v1 mod 16 * 16 + v2 div 4),
                     of_nat (v2 mod 4 * 64 + v3)]) cs"
  using assms by (simp add: a2b_data del: a2b_base64.simps(2))

lemma a2b_last_two:
  assumes "v0 < 64" "v1 < 64" "v2 < 64"
  shows "a2b_base64 0 l p out [b64_char v0, b64_char v1, b64_char v2, CHR ''=''] =
           Inr (out @ [of_nat (v0 * 4 + v1 div 16), of_nat (v1 mod 16 * 16 + v2 div 4)])"
  using assms by (simp add: a2b_data a2b_pad del: a2b_base64.simps(2))

lemma a2b_last_one:
  assumes "v0 < 64" "v1 < 64"
  shows "a2b_base64 0 l p out [b64_char v0, b64_char v1, CHR ''='', CHR ''=''] =
           Inr (out @ [of_nat (v0 * 4 + v1 div 16)])"
  using assms by (simp add: a2b_data a2b_pad del: a2b_base64.simps(2))

lemma byte_of_unat: "(of_nat (unat a) :: byte) = a"
  by simp

lemma a2b_encode: "a2b_base64 0 l p out (b64encode bs) = Inr (out @ bs)"
proof (induction bs arbitrary: l p out rule: b64encode.induct)
  case 1
  then show ?case by simp
next
  case (2 a)
  note s = sextets [OF byte_bound [of a] byte_bound [of a] byte_bound [of a]]
  note r = regroup [OF byte_bound [of a] byte_bound [of a] byte_bound [of a]]
  have "a2b_base64 0 l p out (b64encode [a]) =
          Inr (out @ [of_nat (unat a div 4 * 4 + unat a mod 4 * 16 div 16)])"
    by (simp only: b64encode.simps a2b_last_one [OF s(1) s(5)])
  then show ?case by (simp only: r byte_of_unat)
next
  case (3 a b)
  note s = sextets [OF byte_bound [of a] byte_bound [of b] byte_bound [of b]]
  note r = regroup [OF byte_bound [of a] byte_bound [of b] byte_bound [of b]]
  have "a2b_base64 0 l p out (b64encode [a, b]) =
          Inr (out @ [of_nat (unat a div 4 * 4 + (unat a mod 4 * 16 + unat b div 16) div 16),
                      of_nat ((unat a mod 4 * 16 + unat b div 16) mod 16 * 16 +
                              unat b mod 16 * 4 div 4)])"
    by (simp only: b64encode.simps a2b_last_two [OF s(1) s(2) s(6)])
  then show ?case by (simp only: r byte_of_unat)
next
  case (4 a b c rest)
  note s = sextets [OF byte_bound [of a] byte_bound [of b] byte_bound [of c]]
  note r = regroup [OF byte_bound [of a] byte_bound [of b] byte_bound [of c]]
  have "a2b_base64 0 l p out (b64encode (a # b # c # rest)) =
          a2b_base64 0 0 0
            (out @ [of_nat (unat a div 4 * 4 + (unat a mod 4 * 16 + unat b div 16) div 16),
                    of_nat ((unat a mod 4 * 16 + unat b div 16) mod 16 * 16 +
                            (unat b mod 16 * 4 + unat c div 64) div 4),
                    of_nat ((unat b mod 16 * 4 + unat c div 64) mod 4 * 64 + unat c mod 64)])
            (b64encode rest)"
    by (simp only: b64encode.simps append_Cons append_Nil a2b_quad [OF s(1) s(2) s(3) s(4)])
  also have "\<dots> = a2b_base64 0 0 0 (out @ [a, b, c]) (b64encode rest)"
    by (simp only: r byte_of_unat)
  also have "\<dots> = Inr ((out @ [a, b, c]) @ rest)"
    by (rule "4.IH")
  finally show ?case by simp
qed

lemma b64encode_ascii: "list_all (\<lambda>c. (of_char c :: nat) < 128) (b64encode bs)"
proof (induction bs rule: b64encode.induct)
  case (4 a b c rest)
  note s = sextets [OF byte_bound [of a] byte_bound [of b] byte_bound [of c]]
  from 4 show ?case by (simp add: b64_char_ascii s)
next
  case (3 a b)
  note s = sextets [OF byte_bound [of a] byte_bound [of b] byte_bound [of b]]
  show ?case by (simp add: b64_char_ascii s)
next
  case (2 a)
  note s = sextets [OF byte_bound [of a] byte_bound [of a] byte_bound [of a]]
  show ?case by (simp add: b64_char_ascii s)
qed simp

lemma b64decode_b64encode: "b64decode (PStr (b64encode bs)) = (Inr bs, [])"
  using a2b_encode [of 0 0 "[]" bs] by (simp add: b64decode_def b64encode_ascii)

section \<open>The relays forward what they decode\<close>

lemma upstream_calls_append [simp]:
  "upstream_calls (es @ es') = upstream_calls es @ upstream_calls es'"
  by (simp add: upstream_calls_def)

lemma upstream_calls_simps [simp]:
  "upstream_calls [] = []"
  "upstream_calls (SendRealtimeInput k d m # es) = SendRealtimeInput k d m # upstream_calls es"
  "upstream_calls (WsSendJson j # es) = upstream_calls es"
  "upstream_calls (PrintExc p e # es) = upstream_calls es"
  by (simp_all add: upstream_calls_def)

lemma send_all_no_upstream: "upstream_calls (snd (send_all r ms)) = []"
proof (induction ms)
  case Nil
  then show ?case by (simp add: returns_def)
next
  case (Cons m ms)
  then show ?case
    by (cases r; cases "send_all r ms")
       (simp_all add: and_then_def ws_send_def call_def outcome_of_def)
qed

lemma receive_body_audio:
  assumes "incoming x = Inr (PDict kvs)"
    and "map_of kvs ''type'' = Some (PStr ''audio'')"
    and "map_of kvs ''data'' = Some payload"
    and "b64decode payload = (Inr bs, [])"
  shows "receive_body s x =
           (case forwarding x of
              None \<Rightarrow> (Inr (Continue, s), [SendRealtimeInput ''audio'' bs ''audio/pcm''])
            | Some e \<Rightarrow> (Inl e, [SendRealtimeInput ''audio'' bs ''audio/pcm'']))"
  using assms
  by (simp add: receive_body_def py_get_def py_item_def and_then_def returns_def call_def
      outcome_of_def split: option.splits)

lemma receive_step_audio:
  assumes "incoming x = Inr (PDict kvs)"
    and "map_of kvs ''type'' = Some (PStr ''audio'')"
    and "map_of kvs ''data'' = Some payload"
    and "b64decode payload = (Inr bs, [])"
  shows "upstream_calls (snd (snd (receive_step s x))) =
           [SendRealtimeInput ''audio'' bs ''audio/pcm'']"
  using receive_body_audio [OF assms, of s]
  by (simp add: receive_step_def split: option.splits exc.splits)

lemma video_body_audio:
  assumes "parsed v = Inr (PDict kvs)"
    and "map_of kvs ''type'' = Some (PStr ''audio'')"
    and "map_of kvs ''data'' = Some payload"
    and "b64decode payload = (Inr bs, [])"
  shows "upstream_calls (snd (video_body v)) = [SendRealtimeInput ''audio'' bs ''audio/pcm'']"
proof -
  obtain responses ending where u: "upstream_turn v = (responses, ending)"
    by (cases "upstream_turn v")
  obtain r es where sa: "send_all (replying v)
      (map audio_reply (concat (map inline_payloads responses))) = (r, es)"
    by (cases "send_all (replying v) (map audio_reply (concat (map inline_payloads responses)))")
  have no: "upstream_calls es = []"
    using send_all_no_upstream [of "replying v"
        "map audio_reply (concat (map inline_payloads responses))"] sa by simp
  show ?thesis
    using assms u sa no
    by (cases "forwarding_frame v"; cases r; cases ending)
       (simp_all add: video_body_def py_item_def and_then_def returns_def raises_def call_def
        outcome_of_def)
qed

text \<open>
  C1: for an audio message whose data is valid base64, the one call that forwards media
  upstream carries exactly the decoded bytes, tagged \<open>audio/pcm\<close>, in the live relay
  and in the video relay alike; and the encoding of any byte sequence is such a valid
  payload, decoded to that sequence.
\<close>

theorem audio_forwarded_as_decoded:
  assumes "map_of kvs ''type'' = Some (PStr ''audio'')"
    and "map_of kvs ''data'' = Some (PStr d)"
    and "b64decode (PStr d) = (Inr bs, [])"
  shows "(incoming x = Inr (PDict kvs) \<longrightarrow>
            upstream_calls (snd (snd (receive_step s x))) =
              [SendRealtimeInput ''audio'' bs ''audio/pcm''])
       \<and> (parsed v = Inr (PDict kvs) \<longrightarrow>
            upstream_calls (snd (video_body v)) =
              [SendRealtimeInput ''audio'' bs ''audio/pcm''])
       \<and> b64decode (PStr (b64encode payload)) = (Inr payload, [])"
  using receive_step_audio [OF _ assms] video_body_audio [OF _ assms] b64decode_b64encode
  by blast

text \<open>The payload \<open>AQI=\<close> is the encoding of the bytes 1 and 2.\<close>

theorem audio_forwarded_as_decoded_witness:
  "b64decode (PStr ''AQI='') = (Inr [1, 2], [])
   \<and> upstream_calls (snd (snd (receive_step (shared live_start)
        \<lparr>incoming = Inr (audio_message ''AQI=''), forwarding = None\<rparr>))) =
       [SendRealtimeInput ''audio'' [1, 2] ''audio/pcm'']
   \<and> upstream_calls (snd (video_body
        \<lparr>parsed = Inr (audio_message ''AQI=''), forwarding_frame = None,
           upstream_turn = ([], None), replying = None\<rparr>)) =
       [SendRealtimeInput ''audio'' [1, 2] ''audio/pcm'']"
proof -
  have d: "b64decode (PStr ''AQI='') = (Inr [1, 2], [])"
    by (simp add: b64decode_def b64_value_def)
  show ?thesis
    using d audio_forwarded_as_decoded
      [of "[(''type'', PStr ''audio''), (''data'', PStr ''AQI='')]" "''AQI=''" "[1, 2]"
          "\<lparr>incoming = Inr (audio_message ''AQI=''), forwarding = None\<rparr>" "shared live_start"
          "\<lparr>parsed = Inr (audio_message ''AQI=''), forwarding_frame = None,
             upstream_turn = ([], None), replying = None\<rparr>"]
    by (simp add: audio_message_def)
qed

section \<open>Exceptions in the relay loops\<close>













section \<open>The end of a relay direction\<close>

lemma stop_breaks:
  assumes "incoming x = Inr (PDict kvs)" "map_of kvs ''type'' = Some (PStr ''stop'')"
  shows "receive_step s x = (Break, s\<lparr>is_running := False\<rparr>, [])"
  using assms
  by (simp add: receive_step_def receive_body_def py_get_def and_then_def returns_def)

lemma send_step_when_stopped:
  "after_pass (fst (send_step False y)) False = Finished"
  by (simp add: after_pass_def)

text \<open>
  C3 as stated fails in the live relay: after \<open>stop\<close> the outbound task is still
  waiting, and after the outbound task has ended on a closed connection the inbound task
  is still reading; the handler stays open in both cases.
\<close>

theorem stop_leaves_sender_waiting:
  "receiver (fst (live_run live_start [FromClient stop_pass])) = Finished
   \<and> sender (fst (live_run live_start [FromClient stop_pass])) = Running
   \<and> fst (live_session True None None None [FromClient stop_pass]) = Open
   \<and> sender (fst (live_run live_start [FromUpstream upstream_closed])) = Finished
   \<and> receiver (fst (live_run live_start [FromUpstream upstream_closed])) = Running
   \<and> fst (live_session True None None None [FromUpstream upstream_closed]) = Open"
proof -
  have a: "live_step live_start (FromClient stop_pass) =
        (live_start\<lparr>shared := (shared live_start)\<lparr>is_running := False\<rparr>, receiver := Finished\<rparr>, [])"
    by (simp add: live_step_def live_start_def stop_pass_def stop_breaks [where kvs = "[(''type'', PStr ''stop'')]"]
        after_pass_def)
  have low: "lower ''Connection closed'' = ''connection closed''" by code_simp
  have cl: "sublist ''closed'' (lower ''Connection closed'')"
    unfolding low using sublist_append_leftI [of "''closed''" "''connection ''"] by simp
  have b: "live_step live_start (FromUpstream upstream_closed) =
        (live_start\<lparr>sender := Finished\<rparr>, [Print ''Send error: Connection closed''])"
    using cl
    by (simp add: live_step_def live_start_def upstream_closed_def send_step_def send_error_def
        after_pass_def)
  show ?thesis
    by (simp add: a b live_session_def) (simp add: live_start_def)
qed

lemma cancel_pending_not_active [simp]: "cancel_pending v \<noteq> Active"
  by (simp add: cancel_pending_def)

lemma voice_step_cases:
  assumes "both_active t"
  shows "(both_active (fst (fst (voice_step sid (t, reg) ev))) \<and>
          snd (fst (voice_step sid (t, reg) ev)) = reg)
       \<or> (neither_active (fst (fst (voice_step sid (t, reg) ev))) \<and>
          snd (fst (voice_step sid (t, reg) ev)) = reg(sid := None))"
  using assms
  by (auto simp: voice_step_def both_active_def neither_active_def Let_def
      split: voice_event.splits prod.splits)

lemma voice_step_ended:
  assumes "\<not> both_active t"
  shows "voice_step sid (t, reg) ev = ((t, reg), [])"
  using assms by (auto simp add: voice_step_def both_active_def)

lemma voice_run_ended:
  assumes "\<not> both_active t"
  shows "fst (voice_run sid (t, reg) evs) = (t, reg)"
  using assms
  by (induction evs) (simp_all add: voice_step_ended split: prod.splits)

lemma voice_run_cases:
  assumes "both_active t"
  shows "(both_active (fst (fst (voice_run sid (t, reg) evs))) \<and>
          snd (fst (voice_run sid (t, reg) evs)) = reg)
       \<or> (neither_active (fst (fst (voice_run sid (t, reg) evs))) \<and>
          snd (fst (voice_run sid (t, reg) evs)) = reg(sid := None))"
  using assms
proof (induction evs arbitrary: t)
  case Nil
  then show ?case by simp
next
  case (Cons ev evs)
  obtain t' reg' es where st: "voice_step sid (t, reg) ev = ((t', reg'), es)"
    by (metis prod.collapse)
  obtain st'' es' where rn: "voice_run sid (t', reg') evs = (st'', es')"
    by (metis prod.collapse)
  from voice_step_cases [OF Cons.prems, of sid reg ev] st
  consider "both_active t'" "reg' = reg" | "neither_active t'" "reg' = reg(sid := None)"
    by auto
  then show ?case
  proof cases
    case 1
    with Cons.IH [of t'] st rn show ?thesis by simp
  next
    case 2
    then have "\<not> both_active t'" by (auto simp: neither_active_def both_active_def)
    from voice_run_ended [OF this, of sid reg' evs] 2 st rn show ?thesis by simp
  qed
qed

lemma disconnect_breaks:
  assumes "incoming x = Inl WebSocketDisconnect"
  shows "receive_step s x = (Break, s\<lparr>is_running := False\<rparr>, [])"
  using assms by (simp add: receive_step_def receive_body_def and_then_def)

lemma live_step_after_end_of_inbound:
  assumes "receiver lt = Running"
    and "receive_step (shared lt) x = (Break, (shared lt)\<lparr>is_running := False\<rparr>, [])"
  shows "receiver (fst (live_step lt (FromClient x))) = Finished
       \<and> \<not> is_running (shared (fst (live_step lt (FromClient x))))
       \<and> (\<forall>y. sender (fst (live_step (fst (live_step lt (FromClient x))) (FromUpstream y)))
               = Finished)"
  using assms
  by (cases "sender lt") (auto simp: live_step_def after_pass_def split: prod.splits)

lemma voice_failed_removes:
  "fst (voice_failed sid reg e reporting es) \<noteq> Open \<and>
   fst (snd (voice_failed sid reg e reporting es)) = reg(sid := None)"
  by (simp add: voice_failed_def split: option.splits)

lemma voice_websocket_registry:
  "fst (snd (voice_websocket reg sid (Inr n) greeting reporting evs)) =
     (if fst (voice_websocket reg sid (Inr n) greeting reporting evs) = Open
      then reg(sid \<mapsto> n) else reg(sid := None))"
proof (cases greeting)
  case (Some e)
  then show ?thesis
    using voice_failed_removes [of sid "reg(sid \<mapsto> n)" e reporting "[WsSendJson ready_message]"]
    by (simp add: voice_websocket_def)
next
  case None
  let ?t0 = "\<lparr>receive_task = Active, send_task = Active\<rparr>"
  obtain t reg' es where rn: "voice_run sid (?t0, reg(sid \<mapsto> n)) evs = ((t, reg'), es)"
    by (metis prod.collapse)
  have "both_active ?t0" by (simp add: both_active_def)
  from voice_run_cases [OF this, of sid "reg(sid \<mapsto> n)" evs] rn
  consider "both_active t" "reg' = reg(sid \<mapsto> n)"
    | "neither_active t" "reg' = (reg(sid \<mapsto> n))(sid := None)"
    by auto
  then show ?thesis
  proof cases
    case 1
    then show ?thesis using None rn by (simp add: voice_websocket_def both_active_def)
  next
    case 2
    then show ?thesis using None rn
      by (auto simp: voice_websocket_def neither_active_def)
  qed
qed

lemma voice_websocket_ended:
  assumes "fst (voice_websocket reg sid connecting greeting reporting evs) \<noteq> Open"
  shows "fst (snd (voice_websocket reg sid connecting greeting reporting evs)) sid = None"
proof (cases connecting)
  case (Inl e)
  then show ?thesis
    using voice_failed_removes [of sid reg e reporting "[]"]
    by (simp add: voice_websocket_def)
next
  case (Inr n)
  then show ?thesis
    using assms voice_websocket_registry [of reg sid n greeting reporting evs] by simp
qed

lemma video_websocket_registry:
  "fst (snd (video_websocket reg sid (Inr n) greeting xs)) =
     (if fst (video_websocket reg sid (Inr n) greeting xs) = Open
      then reg(sid \<mapsto> n) else reg(sid := None))"
  by (cases "video_loop xs")
     (auto simp: video_websocket_def Let_def split: option.splits loop_end.splits)

lemma consultation_websocket_registry:
  "fst (snd (consultation_websocket reg ms gc sid now greeting ts)) =
     (if fst (consultation_websocket reg ms gc sid now greeting ts) = Open
      then reg(sid \<mapsto> \<lparr>kind = ''consultation'', created = now\<rparr>) else reg(sid := None))"
  by (cases "consultation_loop ms gc sid ts")
     (auto simp: consultation_websocket_def Let_def split: option.splits loop_end.splits exc.splits)

text \<open>
  C3, amended: in the voice relay, a step either leaves both tasks running and the
  registry as it was, or leaves neither running and the session id absent from the
  registry, and a handler that is no longer open has removed its id. In the live relay, a
  \<open>stop\<close> message or a disconnect ends the inbound task and clears \<open>is_running\<close>,
  and the outbound task then ends at its next event.
\<close>

theorem end_of_a_relay_direction:
  "(both_active t \<longrightarrow>
      (both_active (fst (fst (voice_step sid (t, reg) ev))) \<and>
       snd (fst (voice_step sid (t, reg) ev)) = reg)
    \<or> (neither_active (fst (fst (voice_step sid (t, reg) ev))) \<and>
       snd (fst (voice_step sid (t, reg) ev)) sid = None))
   \<and> (fst (voice_websocket reg' sid connecting greeting reporting evs) \<noteq> Open \<longrightarrow>
        fst (snd (voice_websocket reg' sid connecting greeting reporting evs)) sid = None)
   \<and> (receiver lt = Running \<and>
       (incoming x = Inl WebSocketDisconnect \<or>
        (\<exists>kvs. incoming x = Inr (PDict kvs) \<and> map_of kvs ''type'' = Some (PStr ''stop''))) \<longrightarrow>
        receiver (fst (live_step lt (FromClient x))) = Finished
        \<and> \<not> is_running (shared (fst (live_step lt (FromClient x))))
        \<and> (\<forall>y. sender (fst (live_step (fst (live_step lt (FromClient x))) (FromUpstream y)))
                = Finished))"
proof (intro conjI impI)
  assume "both_active t"
  from voice_step_cases [OF this, of sid reg ev]
  show "(both_active (fst (fst (voice_step sid (t, reg) ev))) \<and>
       snd (fst (voice_step sid (t, reg) ev)) = reg)
    \<or> (neither_active (fst (fst (voice_step sid (t, reg) ev))) \<and>
       snd (fst (voice_step sid (t, reg) ev)) sid = None)"
    by auto
next
  assume "fst (voice_websocket reg' sid connecting greeting reporting evs) \<noteq> Open"
  then show "fst (snd (voice_websocket reg' sid connecting greeting reporting evs)) sid = None"
    by (rule voice_websocket_ended)
next
  assume a: "receiver lt = Running \<and>
       (incoming x = Inl WebSocketDisconnect \<or>
        (\<exists>kvs. incoming x = Inr (PDict kvs) \<and> map_of kvs ''type'' = Some (PStr ''stop'')))"
  then have "receive_step (shared lt) x = (Break, (shared lt)\<lparr>is_running := False\<rparr>, [])"
    using disconnect_breaks stop_breaks by blast
  with a have "receiver (fst (live_step lt (FromClient x))) = Finished
       \<and> \<not> is_running (shared (fst (live_step lt (FromClient x))))
       \<and> (\<forall>y. sender (fst (live_step (fst (live_step lt (FromClient x))) (FromUpstream y)))
               = Finished)"
    using live_step_after_end_of_inbound by blast
  then show "receiver (fst (live_step lt (FromClient x))) = Finished"
    and "\<not> is_running (shared (fst (live_step lt (FromClient x))))"
    and "\<forall>y. sender (fst (live_step (fst (live_step lt (FromClient x))) (FromUpstream y)))
               = Finished"
    by blast+
qed

text \<open>A disconnect in a voice session, and a \<open>stop\<close> in a live session.\<close>

theorem end_of_a_relay_direction_witness:
  "both_active voice_idle
   \<and> neither_active (fst (fst (voice_step ''s'' (voice_idle, [''s'' \<mapsto> 7])
        (ClientBytes (Inl WebSocketDisconnect) None))))
   \<and> snd (fst (voice_step ''s'' (voice_idle, [''s'' \<mapsto> 7])
        (ClientBytes (Inl WebSocketDisconnect) None))) ''s'' = None
   \<and> fst (voice_websocket Map.empty ''s'' (Inr 7) None None
        [ClientBytes (Inl WebSocketDisconnect) None]) = Returned
   \<and> fst (snd (voice_websocket Map.empty ''s'' (Inr 7) None None
        [ClientBytes (Inl WebSocketDisconnect) None])) ''s'' = None
   \<and> receiver live_start = Running
   \<and> receiver (fst (live_step live_start (FromClient stop_pass))) = Finished
   \<and> \<not> is_running (shared (fst (live_step live_start (FromClient stop_pass))))
   \<and> sender (fst (live_step (fst (live_step live_start (FromClient stop_pass)))
        (FromUpstream \<lparr>arriving = UpTurnEnd, delivering = None\<rparr>))) = Finished"
proof -
  have b: "both_active voice_idle" by (simp add: both_active_def voice_idle_def)
  have st: "voice_step ''s'' (voice_idle, [''s'' \<mapsto> 7]) (ClientBytes (Inl WebSocketDisconnect) None)
      = ((\<lparr>receive_task = Done, send_task = Cancelled\<rparr>, Map.empty), [])"
    by (simp add: voice_step_def voice_idle_def voice_receive_def and_then_def cancel_pending_def)
  have n: "neither_active (fst (fst (voice_step ''s'' (voice_idle, [''s'' \<mapsto> 7])
        (ClientBytes (Inl WebSocketDisconnect) None))))"
    by (simp add: st neither_active_def)
  have w: "fst (voice_websocket Map.empty ''s'' (Inr 7) None None
        [ClientBytes (Inl WebSocketDisconnect) None]) = Returned"
    using st by (simp add: voice_websocket_def voice_idle_def)
  have r: "receiver live_start = Running" by (simp add: live_start_def)
  have i: "incoming stop_pass = Inr (PDict [(''type'', PStr ''stop'')]) \<and>
      map_of [(''type'', PStr ''stop'')] ''type'' = Some (PStr ''stop'')"
    by (simp add: stop_pass_def)
  show ?thesis
    using b n w r i
      end_of_a_relay_direction [of voice_idle "''s''" "[''s'' \<mapsto> 7]"
        "ClientBytes (Inl WebSocketDisconnect) None" Map.empty "Inr 7" None None
        "[ClientBytes (Inl WebSocketDisconnect) None]" live_start stop_pass]
    by (auto simp: neither_active_def both_active_def)
qed

section \<open>The session registry\<close>

lemma voice_websocket_opens:
  "voice_websocket reg sid (Inr n) None rep [] =
     (Open, reg(sid \<mapsto> n), [WsSendJson ready_message])"
  by (simp add: voice_websocket_def)

lemma voice_websocket_fails:
  assumes "isl connecting \<or> greeting \<noteq> None"
  shows "fst (voice_websocket reg sid connecting greeting rep []) \<noteq> Open
       \<and> fst (snd (voice_websocket reg sid connecting greeting rep [])) = reg(sid := None)"
proof (cases connecting)
  case (Inl e)
  then show ?thesis
    using voice_failed_removes [of sid reg e rep "[]"] by (simp add: voice_websocket_def)
next
  case (Inr n)
  with assms obtain e where "greeting = Some e" by auto
  with Inr show ?thesis
    using voice_failed_removes [of sid "reg(sid \<mapsto> n)" e rep "[WsSendJson ready_message]"]
    by (simp add: voice_websocket_def)
qed

lemma server_connect_ok:
  assumes "open_handlers sv c = None"
  shows "fst (server_step sv (Connects c sid (Inr n) None rep)) =
           \<lparr>registry_now = (registry_now sv)(sid \<mapsto> n),
            open_handlers = (open_handlers sv)(c \<mapsto> (sid, n, voice_idle))\<rparr>"
  using assms by (simp add: server_step_def voice_websocket_opens)

lemma server_connect_failed:
  assumes "open_handlers sv c = None" "isl connecting \<or> greeting \<noteq> None"
  shows "fst (server_step sv (Connects c sid connecting greeting rep)) =
           sv\<lparr>registry_now := (registry_now sv)(sid := None)\<rparr>"
proof -
  obtain r reg es where v:
    "voice_websocket (registry_now sv) sid connecting greeting rep [] = (r, reg, es)"
    by (metis prod.collapse)
  with voice_websocket_fails [OF assms(2), of "registry_now sv" sid rep]
  have "r \<noteq> Open" "reg = (registry_now sv)(sid := None)" by simp_all
  with assms(1) v show ?thesis
    by (simp add: server_step_def split: sum.splits)
qed

lemma server_reaches:
  assumes "open_handlers sv c = Some (sid, n, t)" "both_active t"
  shows "(open_handlers (fst (server_step sv (Reaches c vev))) c \<noteq> None
          \<and> registry_now (fst (server_step sv (Reaches c vev))) = registry_now sv)
       \<or> (open_handlers (fst (server_step sv (Reaches c vev))) c = None
          \<and> registry_now (fst (server_step sv (Reaches c vev))) = (registry_now sv)(sid := None))"
proof -
  obtain t' reg es where v: "voice_step sid (t, registry_now sv) vev = ((t', reg), es)"
    by (metis prod.collapse)
  from voice_step_cases [OF assms(2), of sid "registry_now sv" vev] v
  consider "both_active t'" "reg = registry_now sv"
    | "neither_active t'" "reg = (registry_now sv)(sid := None)"
    by auto
  then show ?thesis
  proof cases
    case 1
    with assms(1) v show ?thesis by (simp add: server_step_def)
  next
    case 2
    then have "\<not> both_active t'" by (auto simp: neither_active_def both_active_def)
    with 2 assms(1) v show ?thesis by (simp add: server_step_def)
  qed
qed

lemma video_websocket_opens:
  "video_websocket reg sid (Inr n) None [] = (Open, reg(sid \<mapsto> n), [WsSendJson ready_message])"
  by (simp add: video_websocket_def)

lemma consultation_websocket_opens:
  "consultation_websocket creg ms gc sid now None [] =
     (Open, creg(sid \<mapsto> \<lparr>kind = ''consultation'', created = now\<rparr>),
      [WsSendJson (connected_message sid
         ''Welcome to PetPal Health! How can I help your furry friend today?'')])"
  by (simp add: consultation_websocket_def)

text \<open>
  C5 as stated fails: a second voice connection under the session id of an open one is
  stored over the entry of the first, so that two handlers are open under one id; the end
  of the first then removes the entry of the second.
\<close>

theorem session_id_inserted_while_present:
  "fst (server_run server_start [Connects 2 ''s'' (Inr 7) None None]) =
     \<lparr>registry_now = [''s'' \<mapsto> 7], open_handlers = [2 \<mapsto> (''s'', 7, voice_idle)]\<rparr>
   \<and> fst (server_run server_start
        [Connects 2 ''s'' (Inr 7) None None, Connects 3 ''s'' (Inr 8) None None]) =
     \<lparr>registry_now = [''s'' \<mapsto> 8],
      open_handlers = [2 \<mapsto> (''s'', 7, voice_idle), 3 \<mapsto> (''s'', 8, voice_idle)]\<rparr>
   \<and> fst (server_run server_start
        [Connects 2 ''s'' (Inr 7) None None, Connects 3 ''s'' (Inr 8) None None,
         Reaches 2 (ClientBytes (Inl WebSocketDisconnect) None)]) =
     \<lparr>registry_now = Map.empty, open_handlers = [3 \<mapsto> (''s'', 8, voice_idle)]\<rparr>"
proof -
  have a: "server_step server_start (Connects 2 ''s'' (Inr 7) None None) =
      (\<lparr>registry_now = [''s'' \<mapsto> 7], open_handlers = [2 \<mapsto> (''s'', 7, voice_idle)]\<rparr>,
       [WsSendJson ready_message])"
    by (simp add: server_step_def server_start_def voice_websocket_opens)
  have b: "server_step
      \<lparr>registry_now = [''s'' \<mapsto> 7], open_handlers = [2 \<mapsto> (''s'', 7, voice_idle)]\<rparr>
      (Connects 3 ''s'' (Inr 8) None None) =
      (\<lparr>registry_now = [''s'' \<mapsto> 8],
        open_handlers = [2 \<mapsto> (''s'', 7, voice_idle), 3 \<mapsto> (''s'', 8, voice_idle)]\<rparr>,
       [WsSendJson ready_message])"
    by (simp add: server_step_def voice_websocket_opens)
  have c: "server_step
      \<lparr>registry_now = [''s'' \<mapsto> 8],
        open_handlers = [2 \<mapsto> (''s'', 7, voice_idle), 3 \<mapsto> (''s'', 8, voice_idle)]\<rparr>
      (Reaches 2 (ClientBytes (Inl WebSocketDisconnect) None)) =
      (\<lparr>registry_now = Map.empty, open_handlers = [3 \<mapsto> (''s'', 8, voice_idle)]\<rparr>, [])"
    by (simp add: server_step_def voice_step_def voice_idle_def voice_receive_def
        and_then_def cancel_pending_def both_active_def fun_upd_twist)
  show ?thesis by (simp add: a b c)
qed

text \<open>
  C5, amended, on the registry that the handlers share: a voice handler that connects
  stores its session under its id whatever the registry holds, replacing an entry that is
  present, and the video and consultation handlers store theirs in the same way; a voice
  handler whose connect or ready signal fails, or whose tasks end, removes whatever entry
  its id then has; while its tasks go on the registry is as it was. No entry of another
  id changes in any of these steps.
\<close>

theorem registry_insert_replaces:
  "(open_handlers sv c = None \<longrightarrow>
      fst (server_step sv (Connects c sid (Inr n) None rep)) =
        \<lparr>registry_now = (registry_now sv)(sid \<mapsto> n),
         open_handlers = (open_handlers sv)(c \<mapsto> (sid, n, voice_idle))\<rparr>)
   \<and> (open_handlers sv c = None \<and> (isl connecting \<or> greeting \<noteq> None) \<longrightarrow>
        fst (server_step sv (Connects c sid connecting greeting rep)) =
          sv\<lparr>registry_now := (registry_now sv)(sid := None)\<rparr>)
   \<and> (open_handlers sv c' = Some (sid', n', t) \<and> both_active t \<longrightarrow>
        (open_handlers (fst (server_step sv (Reaches c' vev))) c' \<noteq> None
         \<and> registry_now (fst (server_step sv (Reaches c' vev))) = registry_now sv)
      \<or> (open_handlers (fst (server_step sv (Reaches c' vev))) c' = None
         \<and> registry_now (fst (server_step sv (Reaches c' vev))) =
             (registry_now sv)(sid' := None)))
   \<and> video_websocket reg sid (Inr n) None [] =
       (Open, reg(sid \<mapsto> n), [WsSendJson ready_message])
   \<and> consultation_websocket creg ms gc sid now None [] =
       (Open, creg(sid \<mapsto> \<lparr>kind = ''consultation'', created = now\<rparr>),
        [WsSendJson (connected_message sid
           ''Welcome to PetPal Health! How can I help your furry friend today?'')])"
proof (intro conjI impI)
  assume "open_handlers sv c = None"
  then show "fst (server_step sv (Connects c sid (Inr n) None rep)) =
        \<lparr>registry_now = (registry_now sv)(sid \<mapsto> n),
         open_handlers = (open_handlers sv)(c \<mapsto> (sid, n, voice_idle))\<rparr>"
    by (rule server_connect_ok)
next
  assume "open_handlers sv c = None \<and> (isl connecting \<or> greeting \<noteq> None)"
  then show "fst (server_step sv (Connects c sid connecting greeting rep)) =
          sv\<lparr>registry_now := (registry_now sv)(sid := None)\<rparr>"
    using server_connect_failed by blast
next
  assume "open_handlers sv c' = Some (sid', n', t) \<and> both_active t"
  then show "(open_handlers (fst (server_step sv (Reaches c' vev))) c' \<noteq> None
         \<and> registry_now (fst (server_step sv (Reaches c' vev))) = registry_now sv)
      \<or> (open_handlers (fst (server_step sv (Reaches c' vev))) c' = None
         \<and> registry_now (fst (server_step sv (Reaches c' vev))) =
             (registry_now sv)(sid' := None))"
    using server_reaches by blast
next
  show "video_websocket reg sid (Inr n) None [] =
       (Open, reg(sid \<mapsto> n), [WsSendJson ready_message])"
    by (rule video_websocket_opens)
next
  show "consultation_websocket creg ms gc sid now None [] =
       (Open, creg(sid \<mapsto> \<lparr>kind = ''consultation'', created = now\<rparr>),
        [WsSendJson (connected_message sid
           ''Welcome to PetPal Health! How can I help your furry friend today?'')])"
    by (rule consultation_websocket_opens)
qed

text \<open>
  A server with one open handler under the id \<open>s\<close>: a second connection under that
  id, a failed connection under that id, and the end of the open handler.
\<close>

theorem registry_insert_replaces_witness:
  "open_handlers busy_server 4 = None
   \<and> registry_now busy_server ''s'' = Some 7
   \<and> fst (server_step busy_server (Connects 4 ''s'' (Inr 8) None None)) =
       \<lparr>registry_now = [''s'' \<mapsto> 8],
        open_handlers = [3 \<mapsto> (''s'', 7, voice_idle), 4 \<mapsto> (''s'', 8, voice_idle)]\<rparr>
   \<and> fst (server_step busy_server
        (Connects 4 ''s'' (Inl (Failure ''no upstream'')) None None)) =
       \<lparr>registry_now = Map.empty, open_handlers = [3 \<mapsto> (''s'', 7, voice_idle)]\<rparr>
   \<and> open_handlers busy_server 3 = Some (''s'', 7, voice_idle)
   \<and> both_active voice_idle
   \<and> open_handlers (fst (server_step busy_server
        (Reaches 3 (ClientBytes (Inl WebSocketDisconnect) None)))) 3 = None
   \<and> registry_now (fst (server_step busy_server
        (Reaches 3 (ClientBytes (Inl WebSocketDisconnect) None)))) = Map.empty"
proof -
  have h4: "open_handlers busy_server 4 = None" by (simp add: busy_server_def)
  have h3: "open_handlers busy_server 3 = Some (''s'', 7, voice_idle)"
    by (simp add: busy_server_def)
  have b: "both_active voice_idle" by (simp add: both_active_def voice_idle_def)
  have f: "isl (Inl (Failure ''no upstream'') :: exc + nat)" by simp
  have gone: "open_handlers (fst (server_step busy_server
        (Reaches 3 (ClientBytes (Inl WebSocketDisconnect) None)))) 3 = None"
    by (simp add: busy_server_def server_step_def voice_step_def voice_idle_def
        voice_receive_def and_then_def cancel_pending_def both_active_def)
  show ?thesis
    using h4 h3 b f gone
      registry_insert_replaces [of busy_server 4 "''s''" 8 None
        "Inl (Failure ''no upstream'')" None 3 "''s''" 7 voice_idle
        "ClientBytes (Inl WebSocketDisconnect) None"]
    by (auto simp: busy_server_def)
qed

end
